theory Spec2Isabelle
  imports Main
begin

section \<open>Key custody: the in-memory private key store of server/index.js\<close>

text \<open>
  \<^verbatim>\<open>privateKeyStore\<close> is a JavaScript \<^verbatim>\<open>Map\<close> from session id to
  \<^verbatim>\<open>{ privateKeyPem, expiresAt }\<close>. The clock \<^verbatim>\<open>Date.now()\<close> is an integer number of
  milliseconds; every function that reads it takes the reading as its first argument.
  A function that mutates the map returns the new map.
\<close>

record key_rec =
  privateKeyPem :: string
  expiresAt :: int

type_synonym key_store = "string \<rightharpoonup> key_rec"

definition storePrivateKeyForSession :: "int \<Rightarrow> string \<Rightarrow> string \<Rightarrow> key_store \<Rightarrow> key_store" where
  "storePrivateKeyForSession now sessionId pem store =
     store(sessionId \<mapsto> \<lparr>privateKeyPem = pem, expiresAt = now + 2 * 60 * 60 * 1000\<rparr>)"

definition getPrivateKeyForSession :: "int \<Rightarrow> string \<Rightarrow> key_store \<Rightarrow> string option \<times> key_store" where
  "getPrivateKeyForSession now sessionId store =
     (case store sessionId of
        None \<Rightarrow> (None, store)
      | Some rec \<Rightarrow>
          if now > expiresAt rec then (None, store(sessionId := None))
          else (Some (privateKeyPem rec), store))"

definition clearPrivateKeyForSession :: "string \<Rightarrow> key_store \<Rightarrow> key_store" where
  "clearPrivateKeyForSession sessionId store = store(sessionId := None)"

text \<open>The periodic sweep (the \<^verbatim>\<open>setInterval\<close> callback) deletes every entry with
  \<^verbatim>\<open>rec.expiresAt <= now\<close>.\<close>

definition sweepExpired :: "int \<Rightarrow> key_store \<Rightarrow> key_store" where
  "sweepExpired now store =
     (\<lambda>sid. case store sid of
              None \<Rightarrow> None
            | Some rec \<Rightarrow> if expiresAt rec \<le> now then None else Some rec)"


section \<open>The access control matrix (acl.js)\<close>

text \<open>
  \<^verbatim>\<open>ACL\<close> is an object literal and \<^verbatim>\<open>checkAccess\<close> reads it with the bracket
  operator, so a key that is not an own property is looked up along the prototype chain.
  The values below are the JavaScript values that two property reads starting at
  \<^verbatim>\<open>ACL\<close> can reach: object literals, arrays of strings, the built-in functions that
  \<^verbatim>\<open>Object.prototype\<close> and \<^verbatim>\<open>Function.prototype\<close> carry (by name and
  \<^verbatim>\<open>length\<close>), the two prototype objects, strings, numbers, \<^verbatim>\<open>undefined\<close> and
  \<^verbatim>\<open>null\<close>. A read or a call that raises is the value \<open>Throw\<close>.
\<close>

datatype jsval =
    JUndefined
  | JNull
  | JStr string
  | JNum int
  | JArr "string list"
  | JObj "(string \<times> jsval) list"
  | JFun string int
  | JObjectPrototype
  | JFunctionPrototype

datatype 'a completion = Normal 'a | Throw string

definition ACL :: jsval where
  "ACL = JObj
     [(''Author'', JObj
         [(''Paper'', JArr [''create'', ''read'', ''update'']),
          (''Review'', JArr []),
          (''FinalDecision'', JArr [''read''])]),
      (''Collaborator'', JObj
         [(''Paper'', JArr [''read'', ''update'']),
          (''Review'', JArr [''read'']),
          (''FinalDecision'', JArr [''create'', ''read''])]),
      (''Reviewer'', JObj
         [(''Paper'', JArr [''read'']),
          (''Review'', JArr [''create'']),
          (''FinalDecision'', JArr [])])]"

text \<open>The string-keyed own properties of \<^verbatim>\<open>Object.prototype\<close> other than the
  accessor \<^verbatim>\<open>__proto__\<close>; any other key reads as \<^verbatim>\<open>undefined\<close>.\<close>

definition object_prototype_member :: "string \<Rightarrow> jsval" where
  "object_prototype_member k =
     (if k = ''constructor'' then JFun ''Object'' 1
      else if k = ''hasOwnProperty'' then JFun ''hasOwnProperty'' 1
      else if k = ''isPrototypeOf'' then JFun ''isPrototypeOf'' 1
      else if k = ''propertyIsEnumerable'' then JFun ''propertyIsEnumerable'' 1
      else if k = ''toLocaleString'' then JFun ''toLocaleString'' 0
      else if k = ''toString'' then JFun ''toString'' 0
      else if k = ''valueOf'' then JFun ''valueOf'' 0
      else if k = ''__defineGetter__'' then JFun ''__defineGetter__'' 2
      else if k = ''__defineSetter__'' then JFun ''__defineSetter__'' 2
      else if k = ''__lookupGetter__'' then JFun ''__lookupGetter__'' 1
      else if k = ''__lookupSetter__'' then JFun ''__lookupSetter__'' 1
      else JUndefined)"

text \<open>The static methods of the \<^verbatim>\<open>Object\<close> constructor (ECMAScript 2024), with their
  \<^verbatim>\<open>length\<close>.\<close>

definition object_static_methods :: "(string \<times> int) list" where
  "object_static_methods =
     [(''assign'', 2), (''create'', 2), (''defineProperties'', 2), (''defineProperty'', 3),
      (''entries'', 1), (''freeze'', 1), (''fromEntries'', 1),
      (''getOwnPropertyDescriptor'', 2), (''getOwnPropertyDescriptors'', 1),
      (''getOwnPropertyNames'', 1), (''getOwnPropertySymbols'', 1), (''getPrototypeOf'', 1),
      (''groupBy'', 2), (''hasOwn'', 2), (''is'', 2), (''isExtensible'', 1), (''isFrozen'', 1),
      (''isSealed'', 1), (''keys'', 1), (''preventExtensions'', 1), (''seal'', 1),
      (''setPrototypeOf'', 2), (''values'', 1)]"

text \<open>A read on \<^verbatim>\<open>Function.prototype\<close>: its own methods, the poisoned accessors
  \<^verbatim>\<open>caller\<close> and \<^verbatim>\<open>arguments\<close> (a TypeError for a built-in function), then
  \<^verbatim>\<open>Object.prototype\<close>.\<close>

definition function_prototype_get :: "string \<Rightarrow> jsval completion" where
  "function_prototype_get k =
     (if k = ''apply'' then Normal (JFun ''apply'' 2)
      else if k = ''bind'' then Normal (JFun ''bind'' 1)
      else if k = ''call'' then Normal (JFun ''call'' 1)
      else if k = ''toString'' then Normal (JFun ''toString'' 0)
      else if k = ''constructor'' then Normal (JFun ''Function'' 1)
      else if k = ''caller'' \<or> k = ''arguments'' then Throw ''TypeError''
      else Normal (object_prototype_member k))"

text \<open>\<^verbatim>\<open>v[k]\<close> for a string \<open>k\<close>. Reading a property of \<^verbatim>\<open>undefined\<close> or
  \<^verbatim>\<open>null\<close> is a TypeError; \<^verbatim>\<open>checkAccess\<close> never reads a property of a string, a
  number or an array through this function (it guards the first read and calls
  \<^verbatim>\<open>includes\<close> on the second), and they read as \<^verbatim>\<open>undefined\<close> here.\<close>

definition js_get :: "jsval \<Rightarrow> string \<Rightarrow> jsval completion" where
  "js_get v k =
     (case v of
        JObj props \<Rightarrow>
          (case map_of props k of
             Some x \<Rightarrow> Normal x
           | None \<Rightarrow> if k = ''__proto__'' then Normal JObjectPrototype
                     else Normal (object_prototype_member k))
      | JObjectPrototype \<Rightarrow>
          if k = ''__proto__'' then Normal JNull else Normal (object_prototype_member k)
      | JFunctionPrototype \<Rightarrow>
          if k = ''name'' then Normal (JStr [])
          else if k = ''length'' then Normal (JNum 0)
          else if k = ''__proto__'' then Normal JObjectPrototype
          else function_prototype_get k
      | JFun name len \<Rightarrow>
          if k = ''name'' then Normal (JStr name)
          else if k = ''length'' then Normal (JNum len)
          else if name = ''Object'' \<and> k = ''prototype'' then Normal JObjectPrototype
          else if name = ''Function'' \<and> k = ''prototype'' then Normal JFunctionPrototype
          else if name = ''Object'' \<and> map_of object_static_methods k \<noteq> None
            then Normal (JFun k (the (map_of object_static_methods k)))
          else if k = ''__proto__'' then Normal JFunctionPrototype
          else function_prototype_get k
      | JUndefined \<Rightarrow> Throw ''TypeError''
      | JNull \<Rightarrow> Throw ''TypeError''
      | _ \<Rightarrow> Normal JUndefined)"

text \<open>JavaScript truthiness: \<^verbatim>\<open>undefined\<close>, \<^verbatim>\<open>null\<close>, the empty string and
  \<^verbatim>\<open>0\<close> are falsy, every object (arrays and functions too) is truthy.\<close>

definition truthy :: "jsval \<Rightarrow> bool" where
  "truthy v =
     (case v of
        JUndefined \<Rightarrow> False
      | JNull \<Rightarrow> False
      | JStr s \<Rightarrow> s \<noteq> []
      | JNum n \<Rightarrow> n \<noteq> 0
      | _ \<Rightarrow> True)"

text \<open>\<^verbatim>\<open>String.prototype.includes\<close>: the argument occurs as a contiguous substring.\<close>

fun str_includes :: "string \<Rightarrow> string \<Rightarrow> bool" where
  "str_includes [] a = (a = [])"
| "str_includes (c # cs) a = (take (length a) (c # cs) = a \<or> str_includes cs a)"

text \<open>\<^verbatim>\<open>allowed.includes(action)\<close> for a string \<open>action\<close>: membership for an array,
  substring test for a string; a number, a function and the objects of this development
  have no \<^verbatim>\<open>includes\<close>, so the call is a TypeError.\<close>

definition js_includes :: "jsval \<Rightarrow> string \<Rightarrow> bool completion" where
  "js_includes allowed action =
     (case allowed of
        JArr xs \<Rightarrow> Normal (action \<in> set xs)
      | JStr s \<Rightarrow> Normal (str_includes s action)
      | _ \<Rightarrow> Throw ''TypeError'')"

definition checkAccess :: "string \<Rightarrow> string \<Rightarrow> string \<Rightarrow> bool completion" where
  "checkAccess role objectType action =
     (case js_get ACL role of
        Throw e \<Rightarrow> Throw e
      | Normal rolePerms \<Rightarrow>
          if \<not> truthy rolePerms then Normal False
          else (case js_get rolePerms objectType of
                  Throw e \<Rightarrow> Throw e
                | Normal v \<Rightarrow>
                    let allowed = (if truthy v then v else JArr [])
                    in js_includes allowed action))"


section \<open>The Node.js primitives used by the server (server/crypto.js, server/utils.js)\<close>

text \<open>
  The repository calls Node's \<^verbatim>\<open>crypto\<close> module, \<^verbatim>\<open>Buffer\<close> and \<^verbatim>\<open>bcryptjs\<close>; they are
  not code of the repository, so they are parameters of the model, collected in one record.
  A primitive that can raise returns an option, \<open>None\<close> standing for the exception. Random
  bytes (the AES key, the GCM nonce, the OAEP seed) are arguments. A \<^verbatim>\<open>Buffer\<close> is a list
  of bytes, that is of \<^typ>\<open>char\<close>.
  \<^item> \<open>ns_gcm_encrypt key iv plaintext\<close> is the pair (ciphertext, tag) of
    \<^verbatim>\<open>createCipheriv('aes-256-gcm', key, iv)\<close>;
  \<^item> \<open>ns_gcm_decrypt key iv tag ciphertext\<close> is the plaintext of
    \<^verbatim>\<open>createDecipheriv\<close>, \<^verbatim>\<open>setAuthTag\<close>, \<^verbatim>\<open>update\<close>, \<^verbatim>\<open>final\<close>, and \<open>None\<close>
    when one of them raises (\<^verbatim>\<open>final\<close> raises when the tag does not authenticate);
  \<^item> \<open>ns_publicEncrypt seed pem m\<close> and \<open>ns_privateDecrypt pem c\<close> are RSA-OAEP with SHA-256;
  \<^item> \<open>ns_sign pem data\<close> and \<open>ns_verify pem data sig\<close> are
    \<^verbatim>\<open>createSign('SHA256')\<close> and \<^verbatim>\<open>createVerify('SHA256')\<close> with base64 signatures.
\<close>

type_synonym buffer = string

record node_server =
  ns_gcm_encrypt :: "buffer \<Rightarrow> buffer \<Rightarrow> buffer \<Rightarrow> buffer \<times> buffer"
  ns_gcm_decrypt :: "buffer \<Rightarrow> buffer \<Rightarrow> buffer \<Rightarrow> buffer \<Rightarrow> buffer option"
  ns_publicEncrypt :: "buffer \<Rightarrow> string \<Rightarrow> buffer \<Rightarrow> buffer option"
  ns_privateDecrypt :: "string \<Rightarrow> buffer \<Rightarrow> buffer option"
  ns_sha256_hex :: "buffer \<Rightarrow> string"
  ns_sign :: "string \<Rightarrow> buffer \<Rightarrow> string option"
  ns_verify :: "string \<Rightarrow> buffer \<Rightarrow> string \<Rightarrow> bool option"
  ns_to_base64 :: "buffer \<Rightarrow> string"
  ns_from_base64 :: "string \<Rightarrow> buffer"
  ns_from_utf8 :: "string \<Rightarrow> buffer"
  ns_to_utf8 :: "buffer \<Rightarrow> string"
  ns_from_hex :: "string \<Rightarrow> buffer"
  ns_pbkdf2 :: "string \<Rightarrow> buffer \<Rightarrow> buffer"
  ns_bcrypt_compare :: "string \<Rightarrow> string \<Rightarrow> bool"

record enc_obj =
  enc_iv :: string
  enc_tag :: string
  enc_ciphertext :: string

definition aesEncrypt :: "node_server \<Rightarrow> buffer \<Rightarrow> buffer \<Rightarrow> buffer \<Rightarrow> enc_obj" where
  "aesEncrypt N iv plaintextBuffer key =
     (case ns_gcm_encrypt N key iv plaintextBuffer of
        (ciphertext, tag) \<Rightarrow>
          \<lparr>enc_iv = ns_to_base64 N iv, enc_tag = ns_to_base64 N tag,
           enc_ciphertext = ns_to_base64 N ciphertext\<rparr>)"

definition aesDecrypt :: "node_server \<Rightarrow> enc_obj \<Rightarrow> buffer \<Rightarrow> buffer option" where
  "aesDecrypt N encObj key =
     (let iv = ns_from_base64 N (enc_iv encObj);
          tag = ns_from_base64 N (enc_tag encObj);
          ciphertext = ns_from_base64 N (enc_ciphertext encObj)
      in ns_gcm_decrypt N key iv tag ciphertext)"

definition rsaEncrypt :: "node_server \<Rightarrow> buffer \<Rightarrow> string \<Rightarrow> buffer \<Rightarrow> string option" where
  "rsaEncrypt N seed publicPem buf =
     map_option (ns_to_base64 N) (ns_publicEncrypt N seed publicPem buf)"

definition rsaDecrypt :: "node_server \<Rightarrow> string \<Rightarrow> string \<Rightarrow> buffer option" where
  "rsaDecrypt N privatePem base64 = ns_privateDecrypt N privatePem (ns_from_base64 N base64)"

definition sha256 :: "node_server \<Rightarrow> buffer \<Rightarrow> string" where
  "sha256 N buf = ns_sha256_hex N buf"

definition sign :: "node_server \<Rightarrow> string \<Rightarrow> buffer \<Rightarrow> string option" where
  "sign N privatePem data = ns_sign N privatePem data"

definition verify :: "node_server \<Rightarrow> string \<Rightarrow> buffer \<Rightarrow> string \<Rightarrow> bool option" where
  "verify N publicPem data signatureBase64 = ns_verify N publicPem data signatureBase64"

definition deriveKey :: "node_server \<Rightarrow> string \<Rightarrow> string \<Rightarrow> buffer" where
  "deriveKey N password saltHex = ns_pbkdf2 N password (ns_from_hex N saltHex)"

definition verifyPassword :: "node_server \<Rightarrow> string \<Rightarrow> string \<Rightarrow> bool" where
  "verifyPassword N password hash = ns_bcrypt_compare N password hash"


section \<open>The JSON database of the server (server/db.js) and its records\<close>

text \<open>
  \<^verbatim>\<open>readDB\<close> parses the whole file and \<^verbatim>\<open>writeDB\<close> rewrites it; a handler works on the
  parsed object and its changes reach the file at the next \<^verbatim>\<open>writeDB\<close> or
  \<^verbatim>\<open>logEvent\<close> (which writes too). The model passes the file's content as a record; each
  handler returns the content it leaves in the file. The keyed collections are maps whose
  keys are the own keys of the parsed objects; what a handler reads under a key that is not
  an own key is described below. Time stamps are the clock reading in
  milliseconds (the source stores its ISO rendering); a handler is given one reading.
  Fields whose names would clash (\<^verbatim>\<open>email\<close>, \<^verbatim>\<open>role\<close>, \<^verbatim>\<open>id\<close>, \<^verbatim>\<open>ts\<close>,
  \<^verbatim>\<open>enc\<close>, \<^verbatim>\<open>hash\<close>, \<^verbatim>\<open>by\<close>) carry the record's initial as a prefix. A log
  entry keeps the event and the fields that identify it; the request's IP address is left
  out.
\<close>

record user =
  u_email :: string
  u_role :: string
  passwordHash :: string
  rsaPublicKey :: string
  rsaPrivateKeyEncrypted :: enc_obj
  rsaPrivSalt :: string
  failedLogins :: nat
  lockUntil :: "int option"
  u_id :: string

record version =
  v_ts :: int
  v_enc :: enc_obj
  v_hash :: string

record decision =
  d_by :: string
  decisionText :: string
  d_hash :: string
  d_signature :: string
  d_ts :: int

record paper =
  p_id :: string
  title :: string
  metadata :: string
  owner :: string
  collaborators :: "string list"
  reviewers :: "string list"
  versions :: "version list"
  encryptedKeys :: "string \<rightharpoonup> string"
  p_decision :: "decision option"

record review =
  r_id :: string
  r_pid :: string
  r_by :: string
  r_enc :: enc_obj
  r_hash :: string
  r_encryptedKeys :: "string \<rightharpoonup> string"
  r_ts :: int

record otp_rec =
  otp :: string
  expires :: int
  used :: bool
  attempts :: "nat option"

datatype logval = LS string | LN int | LB bool

type_synonym log_entry = "(string \<times> logval) list"

record db =
  users :: "string \<rightharpoonup> user"
  papers :: "string \<rightharpoonup> paper"
  reviews :: "string \<rightharpoonup> review"
  otps :: "string \<rightharpoonup> otp_rec"
  logs :: "log_entry list"

definition logEvent :: "int \<Rightarrow> db \<Rightarrow> log_entry \<Rightarrow> db" where
  "logEvent now DB entry = DB\<lparr>logs := logs DB @ [(''ts'', LN now) # entry]\<rparr>"

text \<open>
  The collections and a record's \<^verbatim>\<open>encryptedKeys\<close> are plain objects, and the handlers
  read them with the bracket operator (\<^verbatim>\<open>DB.papers[pid]\<close>, \<^verbatim>\<open>DB.users[email]\<close>,
  \<^verbatim>\<open>DB.otps[email]\<close>, \<^verbatim>\<open>paper.encryptedKeys[user.email]\<close>). For a key that is not
  an own key the read goes on to \<^verbatim>\<open>Object.prototype\<close>: the name of one of its members
  yields that built-in function, \<^verbatim>\<open>__proto__\<close> yields \<^verbatim>\<open>Object.prototype\<close> itself,
  any other key yields \<^verbatim>\<open>undefined\<close>. A built-in object found this way is truthy and has
  none of the properties of a stored record, so each of them reads as \<^verbatim>\<open>undefined\<close>.
\<close>

definition inherited_name :: "string \<Rightarrow> bool" where
  "inherited_name k \<longleftrightarrow> k = ''__proto__'' \<or> object_prototype_member k \<noteq> JUndefined"

text \<open>
  The built-in objects live as long as the server process. One handler writes to the object
  it has looked up, \<^verbatim>\<open>POST /api/verify-otp\<close>, which assigns \<^verbatim>\<open>attempts\<close> and
  \<^verbatim>\<open>used\<close>; when the object is a built-in the two properties stay on it for later
  requests. \<open>B k\<close> holds the two properties of the built-in that the inherited name \<open>k\<close>
  reads (\<open>B ''__proto__''\<close> those of \<^verbatim>\<open>Object.prototype\<close>); no other key of \<open>B\<close> is read
  or written. Every object inherits from \<^verbatim>\<open>Object.prototype\<close>, so a property assigned
  there is what each object without an own property of that name reads. No handler reads
  \<^verbatim>\<open>attempts\<close> or \<^verbatim>\<open>used\<close> of anything but a passcode record, and \<^verbatim>\<open>checkAccess\<close>
  is called with the object types \<^verbatim>\<open>Paper\<close>, \<^verbatim>\<open>Review\<close> and \<^verbatim>\<open>FinalDecision\<close>, so
  the other handlers do not depend on \<open>B\<close>.
\<close>

record otp_props =
  bo_attempts :: "nat option"
  bo_used :: bool

type_synonym builtins = "string \<Rightarrow> otp_props"


text \<open>The session's user (\<^verbatim>\<open>req.session.user\<close>) and what a handler answers. \<open>Threw\<close> is
  an exception that leaves the handler (Express answers 500 and the file is as the last
  write left it). The handlers behind \<^verbatim>\<open>requireAuth\<close> are modelled as the functions they
  are: they run once \<^verbatim>\<open>requireAuth\<close> has called \<^verbatim>\<open>next\<close>, with the session's user.\<close>

record session_user =
  s_email :: string
  s_role :: string
  s_id :: string

datatype response =
    JsonError nat string
  | JsonOk
  | JsonOkId string
  | JsonPaper string string string string string
  | JsonDecision decision bool
  | Threw string


section \<open>Sealing and opening papers and reviews (server/index.js)\<close>

text \<open>\<^verbatim>\<open>a.indexOf(v)\<close> and \<^verbatim>\<open>a.filter((v,i,a) => a.indexOf(v) === i)\<close>, which keeps
  the first occurrence of every element.\<close>

fun indexOf :: "'a list \<Rightarrow> 'a \<Rightarrow> int" where
  "indexOf [] v = - 1"
| "indexOf (x # xs) v =
     (if x = v then 0 else (let i = indexOf xs v in if i < 0 then - 1 else i + 1))"

definition first_occurrences :: "'a list \<Rightarrow> 'a list" where
  "first_occurrences a =
     map fst (filter (\<lambda>(v, i). indexOf a v = int i) (zip a [0..<length a]))"

text \<open>The \<^verbatim>\<open>recipients.forEach\<close> loop of both sealing handlers: a recipient gets an
  entry when \<^verbatim>\<open>DB.users[r]\<close> exists and has a non-empty \<^verbatim>\<open>rsaPublicKey\<close>, and is
  skipped otherwise (a built-in object found under an inherited name has no
  \<^verbatim>\<open>rsaPublicKey\<close> and is skipped like a missing user). \<open>seed r\<close> is the OAEP
  randomness drawn for \<open>r\<close>; \<open>None\<close> is an exception raised by \<^verbatim>\<open>publicEncrypt\<close>.\<close>

fun wrap_keys ::
  "node_server \<Rightarrow> (string \<Rightarrow> buffer) \<Rightarrow> (string \<rightharpoonup> user) \<Rightarrow> buffer \<Rightarrow> string list
     \<Rightarrow> (string \<rightharpoonup> string) \<Rightarrow> (string \<rightharpoonup> string) option" where
  "wrap_keys N seed us aesKey [] acc = Some acc"
| "wrap_keys N seed us aesKey (r # rs) acc =
     (case us r of
        None \<Rightarrow> wrap_keys N seed us aesKey rs acc
      | Some u \<Rightarrow>
          if rsaPublicKey u = [] then wrap_keys N seed us aesKey rs acc
          else (case rsaEncrypt N (seed r) (rsaPublicKey u) aesKey of
                  None \<Rightarrow> None
                | Some w \<Rightarrow> wrap_keys N seed us aesKey rs (acc(r \<mapsto> w))))"

record entropy =
  e_aesKey :: buffer
  e_iv :: buffer
  e_seed :: "string \<Rightarrow> buffer"
  e_id :: string

record paper_req =
  q_title :: string
  q_metadata :: string
  q_fileBase64 :: string
  q_collaborators :: "string list"
  q_reviewers :: "string list"

text \<open>\<^verbatim>\<open>requireAuth\<close>: \<open>None\<close> is the call of \<^verbatim>\<open>next\<close>, which runs the handler; a
  request without a session user is answered here, and the log entry carries
  \<^verbatim>\<open>req.path\<close>, the path of the requested URL.\<close>

definition requireAuth :: "int \<Rightarrow> string \<Rightarrow> session_user option \<Rightarrow> db \<Rightarrow> (response \<times> db) option" where
  "requireAuth now path sess DB =
     (case sess of
        Some user \<Rightarrow> None
      | None \<Rightarrow>
          Some (JsonError 401 ''auth required'',
                logEvent now DB [(''event'', LS ''unauthenticated_access''), (''path'', LS path)]))"

text \<open>\<^verbatim>\<open>POST /api/papers\<close>. When the role may not create a paper the handler names
  \<^verbatim>\<open>DB\<close> before its \<^verbatim>\<open>const\<close> declaration has run, which raises a ReferenceError.
  The new paper is stored under \<open>e_id E\<close>, the value of \<^verbatim>\<open>utils.id()\<close> (a version 4
  UUID).\<close>

definition post_papers ::
  "node_server \<Rightarrow> int \<Rightarrow> entropy \<Rightarrow> session_user \<Rightarrow> paper_req \<Rightarrow> db \<Rightarrow> response \<times> db" where
  "post_papers N now E user body DB =
     (case checkAccess (s_role user) ''Paper'' ''create'' of
        Throw e \<Rightarrow> (Threw e, DB)
      | Normal False \<Rightarrow> (Threw ''ReferenceError'', DB)
      | Normal True \<Rightarrow>
          if q_title body = [] \<or> q_fileBase64 body = [] then (JsonError 400 ''missing'', DB)
          else
            let aesKey = e_aesKey E;
                fileBuf = ns_from_base64 N (q_fileBase64 body);
                enc = aesEncrypt N (e_iv E) fileBuf aesKey;
                hash = sha256 N fileBuf;
                recipients = first_occurrences
                   (s_email user # q_collaborators body @ q_reviewers body)
            in (case wrap_keys N (e_seed E) (users DB) aesKey recipients Map.empty of
                  None \<Rightarrow> (Threw ''Error'', DB)
                | Some keys \<Rightarrow>
                    let pid = e_id E;
                        DB1 = DB\<lparr>papers := (papers DB)(pid \<mapsto>
                                \<lparr>p_id = pid, title = q_title body, metadata = q_metadata body,
                                 owner = s_email user,
                                 collaborators = q_collaborators body,
                                 reviewers = q_reviewers body,
                                 versions = [\<lparr>v_ts = now, v_enc = enc, v_hash = hash\<rparr>],
                                 encryptedKeys = keys, p_decision = None\<rparr>)\<rparr>
                    in (JsonOkId pid,
                        logEvent now DB1 [(''event'', LS ''paper_created''), (''pid'', LS pid),
                                          (''by'', LS (s_email user))])))"

text \<open>The \<^verbatim>\<open>try\<close> block shared by the two reading handlers: fetch the session's private
  key (no key: the 401 answer), unwrap the AES key, decrypt. An exception in it is caught
  and answered with 500; only a decryption that raised nothing yields the plaintext.\<close>

datatype opened = NoPrivateKey | DecryptFailed | Plain buffer

definition open_payload ::
  "node_server \<Rightarrow> int \<Rightarrow> string \<Rightarrow> string \<Rightarrow> enc_obj option \<Rightarrow> key_store
     \<Rightarrow> opened \<times> key_store" where
  "open_payload N now sessionID encKey latest store =
     (case getPrivateKeyForSession now sessionID store of
        (priv, store1) \<Rightarrow>
          if priv = None \<or> priv = Some [] then (NoPrivateKey, store1)
          else
            (case rsaDecrypt N (the priv) encKey of
               None \<Rightarrow> (DecryptFailed, store1)
             | Some aesKey \<Rightarrow>
                 (case latest of
                    None \<Rightarrow> (DecryptFailed, store1)
                  | Some enc \<Rightarrow>
                      (case aesDecrypt N enc aesKey of
                         None \<Rightarrow> (DecryptFailed, store1)
                       | Some plain \<Rightarrow> (Plain plain, store1)))))"

text \<open>\<^verbatim>\<open>GET /api/papers/:id\<close>. When \<open>pid\<close> is no own key of \<^verbatim>\<open>DB.papers\<close> but an
  inherited name, \<^verbatim>\<open>paper\<close> is a built-in object: it is truthy, its \<^verbatim>\<open>owner\<close>,
  \<^verbatim>\<open>collaborators\<close> and \<^verbatim>\<open>reviewers\<close> are \<^verbatim>\<open>undefined\<close>, the list of allowed
  users is \<^verbatim>\<open>[undefined]\<close>, and the request is answered like that of a user the paper
  does not list. Likewise, when the user's email is no own key of
  \<^verbatim>\<open>paper.encryptedKeys\<close> but an inherited name, \<^verbatim>\<open>encKey\<close> is a built-in object
  and \<^verbatim>\<open>Buffer.from(encKey, 'base64')\<close> raises inside the \<^verbatim>\<open>try\<close> block.\<close>

definition get_paper ::
  "node_server \<Rightarrow> int \<Rightarrow> string \<Rightarrow> session_user \<Rightarrow> string \<Rightarrow> db \<Rightarrow> key_store
     \<Rightarrow> response \<times> db \<times> key_store" where
  "get_paper N now sessionID user pid DB store =
     (case papers DB pid of
        None \<Rightarrow>
          if inherited_name pid then
            (JsonError 403 ''forbidden'',
             logEvent now DB [(''event'', LS ''access_denied''), (''by'', LS (s_email user)),
                              (''pid'', LS pid), (''reason'', LS ''not a recipient'')],
             store)
          else (JsonError 404 ''not found'', DB, store)
      | Some paper \<Rightarrow>
          let allowedUsers = owner paper # collaborators paper @ reviewers paper in
          if s_email user \<notin> set allowedUsers then
            (JsonError 403 ''forbidden'',
             logEvent now DB [(''event'', LS ''access_denied''), (''by'', LS (s_email user)),
                              (''pid'', LS pid), (''reason'', LS ''not a recipient'')],
             store)
          else
            (case checkAccess (s_role user) ''Paper'' ''read'' of
               Throw e \<Rightarrow> (Threw e, DB, store)
             | Normal False \<Rightarrow> (JsonError 403 ''forbidden-role'', DB, store)
             | Normal True \<Rightarrow>
                 (case encryptedKeys paper (s_email user) of
                    None \<Rightarrow>
                      if inherited_name (s_email user) then
                        (case getPrivateKeyForSession now sessionID store of
                           (priv, store1) \<Rightarrow>
                             if priv = None \<or> priv = Some [] then
                               (JsonError 401 ''private key not available; re-login required'',
                                DB, store1)
                             else
                               (JsonError 500 ''decrypt'',
                                logEvent now DB
                                  [(''event'', LS ''decrypt_failed''), (''pid'', LS pid),
                                   (''by'', LS (s_email user))], store1))
                      else (JsonError 403 ''no key'', DB, store)
                  | Some encKey \<Rightarrow>
                      if encKey = [] then (JsonError 403 ''no key'', DB, store)
                      else
                        let latest = (if versions paper = [] then None
                                      else Some (last (versions paper)))
                        in (case open_payload N now sessionID encKey
                                   (map_option v_enc latest) store of
                              (NoPrivateKey, store1) \<Rightarrow>
                                 (JsonError 401 ''private key not available; re-login required'',
                                  DB, store1)
                            | (DecryptFailed, store1) \<Rightarrow>
                                 (JsonError 500 ''decrypt'',
                                  logEvent now DB
                                    [(''event'', LS ''decrypt_failed''), (''pid'', LS pid),
                                     (''by'', LS (s_email user))], store1)
                            | (Plain plain, store1) \<Rightarrow>
                                 (JsonPaper pid (title paper) (metadata paper)
                                    (ns_to_base64 N plain) (v_hash (the latest)),
                                  logEvent now DB
                                    [(''event'', LS ''paper_decrypted''), (''pid'', LS pid),
                                     (''by'', LS (s_email user))], store1)))))"


text \<open>\<^verbatim>\<open>POST /api/papers/:id/reviews\<close>: the review is sealed for the paper's owner and
  collaborators. For a \<open>pid\<close> that is an inherited name \<^verbatim>\<open>paper.reviewers\<close> is
  \<^verbatim>\<open>undefined\<close> and the call of \<^verbatim>\<open>includes\<close> on it raises a TypeError.\<close>

definition post_review ::
  "node_server \<Rightarrow> int \<Rightarrow> entropy \<Rightarrow> session_user \<Rightarrow> string \<Rightarrow> string \<Rightarrow> db \<Rightarrow> response \<times> db" where
  "post_review N now E user pid reviewBase64 DB =
     (case papers DB pid of
        None \<Rightarrow>
          if inherited_name pid then (Threw ''TypeError'', DB)
          else (JsonError 404 ''not found'', DB)
      | Some paper \<Rightarrow>
          if s_email user \<notin> set (reviewers paper) then (JsonError 403 ''not assigned'', DB)
          else
            (case checkAccess (s_role user) ''Review'' ''create'' of
               Throw e \<Rightarrow> (Threw e, DB)
             | Normal False \<Rightarrow> (JsonError 403 ''forbidden-role'', DB)
             | Normal True \<Rightarrow>
                 let aesKey = e_aesKey E;
                     revBuf = ns_from_base64 N reviewBase64;
                     enc = aesEncrypt N (e_iv E) revBuf aesKey;
                     hash = sha256 N revBuf;
                     recipients = owner paper # collaborators paper
                 in (case wrap_keys N (e_seed E) (users DB) aesKey recipients Map.empty of
                       None \<Rightarrow> (Threw ''Error'', DB)
                     | Some keys \<Rightarrow>
                         let rid = e_id E;
                             DB1 = DB\<lparr>reviews := (reviews DB)(rid \<mapsto>
                                     \<lparr>r_id = rid, r_pid = pid, r_by = s_email user,
                                      r_enc = enc, r_hash = hash, r_encryptedKeys = keys,
                                      r_ts = now\<rparr>)\<rparr>
                         in (JsonOkId rid,
                             logEvent now DB1
                               [(''event'', LS ''review_submitted''), (''rid'', LS rid),
                                (''pid'', LS pid), (''by'', LS (s_email user))]))))"


section \<open>Decisions (server/index.js)\<close>

text \<open>\<^verbatim>\<open>POST /api/papers/:id/decision\<close>: the data that is signed is
  \<^verbatim>\<open>Buffer.from(decisionText, 'utf8')\<close>; the record stored in the paper's
  \<^verbatim>\<open>decision\<close> slot replaces whatever was there. For a \<open>pid\<close> that is an inherited
  name \<^verbatim>\<open>paper.collaborators\<close> is \<^verbatim>\<open>undefined\<close> and the call of \<^verbatim>\<open>includes\<close>
  on it raises a TypeError.\<close>

definition post_decision ::
  "node_server \<Rightarrow> int \<Rightarrow> string \<Rightarrow> session_user \<Rightarrow> string \<Rightarrow> string \<Rightarrow> db \<Rightarrow> key_store
     \<Rightarrow> response \<times> db \<times> key_store" where
  "post_decision N now sessionID user pid text DB store =
     (case papers DB pid of
        None \<Rightarrow>
          if inherited_name pid then (Threw ''TypeError'', DB, store)
          else (JsonError 404 ''not found'', DB, store)
      | Some paper \<Rightarrow>
          if s_email user \<notin> set (collaborators paper) then
            (JsonError 403 ''not collaborator'', DB, store)
          else
            (case checkAccess (s_role user) ''FinalDecision'' ''create'' of
               Throw e \<Rightarrow> (Threw e, DB, store)
             | Normal False \<Rightarrow> (JsonError 403 ''forbidden-role'', DB, store)
             | Normal True \<Rightarrow>
                 (case getPrivateKeyForSession now sessionID store of
                    (priv, store1) \<Rightarrow>
                      if priv = None \<or> priv = Some [] then
                        (JsonError 401 ''private key not available; re-login required'',
                         DB, store1)
                      else
                        let buf = ns_from_utf8 N text;
                            hash = sha256 N buf
                        in (case sign N (the priv) buf of
                              None \<Rightarrow> (Threw ''Error'', DB, store1)
                            | Some signature \<Rightarrow>
                                let DB1 = DB\<lparr>papers := (papers DB)(pid \<mapsto>
                                            paper\<lparr>p_decision := Some
                                              \<lparr>d_by = s_email user, decisionText = text,
                                               d_hash = hash, d_signature = signature,
                                               d_ts = now\<rparr>\<rparr>)\<rparr>
                                in (JsonOk,
                                    logEvent now DB1
                                      [(''event'', LS ''decision_issued''), (''pid'', LS pid),
                                       (''by'', LS (s_email user))],
                                    store1)))))"

text \<open>\<^verbatim>\<open>GET /api/papers/:id/decision\<close>: the signature is checked against the public key
  of \<^verbatim>\<open>dec.by\<close> over \<^verbatim>\<open>Buffer.from(dec.decisionText, 'utf8')\<close>. A \<open>pid\<close> that names
  no paper is answered 404, also when it is an inherited name (the built-in object has no
  \<^verbatim>\<open>decision\<close>). When the signer is no user, or an inherited name, \<^verbatim>\<open>authorPublic\<close>
  is \<^verbatim>\<open>undefined\<close> and \<^verbatim>\<open>verify\<close> raises.\<close>

definition get_decision ::
  "node_server \<Rightarrow> int \<Rightarrow> session_user \<Rightarrow> string \<Rightarrow> db \<Rightarrow> response \<times> db" where
  "get_decision N now user pid DB =
     (case papers DB pid of
        None \<Rightarrow> (JsonError 404 ''no decision'', DB)
      | Some paper \<Rightarrow>
          (case p_decision paper of
             None \<Rightarrow> (JsonError 404 ''no decision'', DB)
           | Some dec \<Rightarrow>
               (case checkAccess (s_role user) ''FinalDecision'' ''read'' of
                  Throw e \<Rightarrow> (Threw e, DB)
                | Normal False \<Rightarrow>
                    (JsonError 403 ''forbidden'',
                     logEvent now DB [(''event'', LS ''access_denied''),
                                      (''by'', LS (s_email user)),
                                      (''object'', LS ''FinalDecision''), (''pid'', LS pid)])
                | Normal True \<Rightarrow>
                    (case users DB (d_by dec) of
                       None \<Rightarrow> (Threw ''TypeError'', DB)
                     | Some signer \<Rightarrow>
                         (case verify N (rsaPublicKey signer)
                                 (ns_from_utf8 N (decisionText dec)) (d_signature dec) of
                            None \<Rightarrow> (Threw ''Error'', DB)
                          | Some ok \<Rightarrow>
                              (JsonDecision dec ok,
                               logEvent now DB
                                 [(''event'', LS ''decision_read''), (''pid'', LS pid),
                                  (''by'', LS (s_email user)), (''verified'', LB ok)]))))))"


section \<open>One-time passcodes and login (server/index.js)\<close>

text \<open>\<^verbatim>\<open>POST /api/verify-otp\<close>. The checks run in the source's order: used, expired,
  mismatch. A mismatch counts an attempt and the fifth marks the record used.
  \<^verbatim>\<open>record.attempts || 0\<close> reads the record's own counter and, when it has none, the one
  on \<^verbatim>\<open>Object.prototype\<close>, when an earlier request has put one there. When \<open>email\<close>
  is no own key of \<^verbatim>\<open>DB.otps\<close> but an inherited name, \<^verbatim>\<open>record\<close> is a built-in
  object: its \<^verbatim>\<open>expires\<close> and \<^verbatim>\<open>otp\<close> are \<^verbatim>\<open>undefined\<close>, so it never counts as
  expired and every submitted code is a mismatch; the counter and the used mark are
  assigned on the built-in object, and the file gets the log entries only.\<close>

definition verify_otp ::
  "int \<Rightarrow> string \<Rightarrow> string \<Rightarrow> db \<Rightarrow> builtins \<Rightarrow> response \<times> db \<times> builtins" where
  "verify_otp now email code DB B =
     (case otps DB email of
        None \<Rightarrow>
          if \<not> inherited_name email then (JsonError 400 ''no otp'', DB, B)
          else
            let own = B email;
                proto = B ''__proto__'';
                a = (case bo_attempts own of
                       Some a \<Rightarrow> a
                     | None \<Rightarrow> (case bo_attempts proto of Some a \<Rightarrow> a | None \<Rightarrow> 0))
            in if bo_used own \<or> bo_used proto then
                 (JsonError 400 ''otp used'',
                  logEvent now DB [(''event'', LS ''otp_replay_attempt''), (''email'', LS email)],
                  B(email := own\<lparr>bo_attempts := Some a\<rparr>))
               else
                 let n = a + 1
                 in (JsonError 400 ''invalid'',
                     logEvent now DB [(''event'', LS ''otp_invalid''), (''email'', LS email),
                                      (''attempts'', LN (int n))],
                     B(email := \<lparr>bo_attempts = Some n, bo_used = (n \<ge> 5)\<rparr>))
      | Some record0 \<Rightarrow>
          let record = record0\<lparr>attempts := Some
                         (case attempts record0 of
                            Some a \<Rightarrow> a
                          | None \<Rightarrow> (case bo_attempts (B ''__proto__'') of
                                       Some a \<Rightarrow> a | None \<Rightarrow> 0))\<rparr>
          in if used record then
               (JsonError 400 ''otp used'',
                logEvent now (DB\<lparr>otps := (otps DB)(email \<mapsto> record)\<rparr>)
                  [(''event'', LS ''otp_replay_attempt''), (''email'', LS email)],
                B)
             else if now > expires record then
               (JsonError 400 ''expired'',
                logEvent now (DB\<lparr>otps := (otps DB)(email \<mapsto> record)\<rparr>)
                  [(''event'', LS ''otp_expired''), (''email'', LS email)],
                B)
             else if otp record \<noteq> code then
               let n = the (attempts record) + 1;
                   record1 = record\<lparr>attempts := Some n\<rparr>;
                   DB1 = logEvent now (DB\<lparr>otps := (otps DB)(email \<mapsto> record1)\<rparr>)
                           [(''event'', LS ''otp_invalid''), (''email'', LS email),
                            (''attempts'', LN (int n))];
                   DB2 = (if n \<ge> 5
                          then DB1\<lparr>otps := (otps DB1)(email \<mapsto> record1\<lparr>used := True\<rparr>)\<rparr>
                          else DB1)
               in (JsonError 400 ''invalid'', DB2, B)
             else
               (JsonOk,
                logEvent now (DB\<lparr>otps := (otps DB)(email \<mapsto> record\<lparr>used := True\<rparr>)\<rparr>)
                  [(''event'', LS ''otp_verified''), (''email'', LS email)],
                B))"


text \<open>\<^verbatim>\<open>user.lockUntil && Date.now() < user.lockUntil\<close>: a missing, \<^verbatim>\<open>null\<close> or
  zero \<^verbatim>\<open>lockUntil\<close> is falsy.

  \<^verbatim>\<open>POST /api/login\<close>. The fourth component is the session user the handler sets
  (\<open>None\<close> when it sets none). The counters are reset in the parsed object as soon as the
  password has been verified; both ways out of the \<^verbatim>\<open>try\<close> write the file (the
  \<^verbatim>\<open>catch\<close> through \<^verbatim>\<open>logEvent\<close>). When \<open>email\<close> is no own key of
  \<^verbatim>\<open>DB.users\<close> but an inherited name, \<^verbatim>\<open>user\<close> is a built-in object: its
  \<^verbatim>\<open>lockUntil\<close> and \<^verbatim>\<open>passwordHash\<close> are \<^verbatim>\<open>undefined\<close>, and
  \<^verbatim>\<open>bcrypt.compareSync\<close> raises an Error on a hash that is no string, before anything
  is written.\<close>

definition locked_at :: "int \<Rightarrow> user \<Rightarrow> bool" where
  "locked_at now user =
     (case lockUntil user of None \<Rightarrow> False | Some t \<Rightarrow> t \<noteq> 0 \<and> now < t)"

definition login ::
  "node_server \<Rightarrow> int \<Rightarrow> string \<Rightarrow> string \<Rightarrow> string \<Rightarrow> db \<Rightarrow> key_store
     \<Rightarrow> response \<times> db \<times> key_store \<times> session_user option" where
  "login N now sessionID email password DB store =
     (case users DB email of
        None \<Rightarrow>
          if inherited_name email then (Threw ''Error'', DB, store, None)
          else
            (JsonError 401 ''invalid'',
             logEvent now DB [(''event'', LS ''login_failed_unknown''), (''email'', LS email)],
             store, None)
      | Some user \<Rightarrow>
          if locked_at now user then
            (JsonError 423 ''account locked'',
             logEvent now DB [(''event'', LS ''login_locked''), (''email'', LS email)],
             store, None)
          else if \<not> verifyPassword N password (passwordHash user) then
            let n = failedLogins user + 1;
                user1 = user\<lparr>failedLogins := n\<rparr>;
                user2 = (if n \<ge> 5 then user1\<lparr>lockUntil := Some (now + 15 * 60 * 1000)\<rparr>
                         else user1)
            in (JsonError 401 ''invalid'',
                logEvent now (DB\<lparr>users := (users DB)(email \<mapsto> user2)\<rparr>)
                  [(''event'', LS ''login_failed''), (''email'', LS email),
                   (''failedAttempts'', LN (int n))],
                store, None)
          else
            let user1 = user\<lparr>failedLogins := 0, lockUntil := None\<rparr>;
                DB1 = DB\<lparr>users := (users DB)(email \<mapsto> user1)\<rparr>;
                keyBuf = deriveKey N password (rsaPrivSalt user1)
            in (case aesDecrypt N (rsaPrivateKeyEncrypted user1) keyBuf of
                  None \<Rightarrow>
                    (JsonError 500 ''crypto'',
                     logEvent now DB1 [(''event'', LS ''login_priv_decrypt_failed''),
                                       (''email'', LS email)],
                     store, None)
                | Some plain \<Rightarrow>
                    (JsonOk,
                     logEvent now DB1 [(''event'', LS ''login_success''), (''email'', LS email)],
                     storePrivateKeyForSession now sessionID (ns_to_utf8 N plain) store,
                     Some \<lparr>s_email = u_email user1, s_role = u_role user1, s_id = u_id user1\<rparr>)))"

text \<open>A client trying passwords one after the other on one account.\<close>

fun login_seq ::
  "node_server \<Rightarrow> string \<Rightarrow> string \<Rightarrow> (int \<times> string) list \<Rightarrow> db \<Rightarrow> key_store
     \<Rightarrow> response list \<times> db \<times> key_store" where
  "login_seq N sessionID email [] DB store = ([], DB, store)"
| "login_seq N sessionID email ((now, password) # rest) DB store =
     (case login N now sessionID email password DB store of
        (r, DB1, store1, _) \<Rightarrow>
          (case login_seq N sessionID email rest DB1 store1 of
             (rs, DB2, store2) \<Rightarrow> (r # rs, DB2, store2)))"




section \<open>The second implementation: research-portal/services/cryptoService.js\<close>

text \<open>
  The primitives this service calls: AES-256-CBC (\<open>None\<close> when \<^verbatim>\<open>createDecipheriv\<close> or
  \<^verbatim>\<open>final\<close> raises, as on bad padding), RSA-OAEP, SHA-256, \<^verbatim>\<open>crypto.sign\<close> and
  \<^verbatim>\<open>crypto.verify\<close>, Base64, \<^verbatim>\<open>Buffer.from(string)\<close>, \<^verbatim>\<open>fs.readFileSync\<close> on the
  key files, and for the decision controller \<^verbatim>\<open>JSON.stringify\<close> of an object given as
  its list of keys and values, \<^verbatim>\<open>Date.prototype.toISOString\<close> and
  \<^verbatim>\<open>String.prototype.trim\<close>.
\<close>

record node_service =
  nv_cbc_encrypt :: "buffer \<Rightarrow> buffer \<Rightarrow> buffer \<Rightarrow> buffer"
  nv_cbc_decrypt :: "buffer \<Rightarrow> buffer \<Rightarrow> buffer \<Rightarrow> buffer option"
  nv_publicEncrypt :: "buffer \<Rightarrow> string \<Rightarrow> buffer \<Rightarrow> buffer option"
  nv_privateDecrypt :: "string \<Rightarrow> buffer \<Rightarrow> buffer option"
  nv_sha256_hex :: "buffer \<Rightarrow> string"
  nv_sign :: "string \<Rightarrow> buffer \<Rightarrow> buffer option"
  nv_verify :: "string \<Rightarrow> buffer \<Rightarrow> buffer \<Rightarrow> bool option"
  nv_to_base64 :: "buffer \<Rightarrow> string"
  nv_from_base64 :: "string \<Rightarrow> buffer"
  nv_from_string :: "string \<Rightarrow> buffer"
  nv_readFileSync :: "string \<Rightarrow> string option"
  nv_stringify :: "(string \<times> string) list \<Rightarrow> string"
  nv_toISOString :: "int \<Rightarrow> string"
  nv_trim :: "string \<Rightarrow> string"

definition encryptAES :: "node_service \<Rightarrow> buffer \<Rightarrow> buffer \<Rightarrow> buffer \<Rightarrow> buffer" where
  "encryptAES V plaintext key iv = nv_cbc_encrypt V key iv plaintext"

definition decryptAES :: "node_service \<Rightarrow> buffer \<Rightarrow> buffer \<Rightarrow> buffer \<Rightarrow> buffer option" where
  "decryptAES V ciphertext key iv = nv_cbc_decrypt V key iv ciphertext"

definition encryptKeyWithRSA :: "node_service \<Rightarrow> buffer \<Rightarrow> buffer \<Rightarrow> string \<Rightarrow> buffer option" where
  "encryptKeyWithRSA V seed aesKey publicKeyPath =
     (case nv_readFileSync V publicKeyPath of
        None \<Rightarrow> None
      | Some publicKey \<Rightarrow> nv_publicEncrypt V seed publicKey aesKey)"

definition decryptKeyWithRSA :: "node_service \<Rightarrow> buffer \<Rightarrow> string \<Rightarrow> buffer option" where
  "decryptKeyWithRSA V encryptedKeyBuf privateKeyPath =
     (case nv_readFileSync V privateKeyPath of
        None \<Rightarrow> None
      | Some privateKey \<Rightarrow> nv_privateDecrypt V privateKey encryptedKeyBuf)"

definition hashSHA256 :: "node_service \<Rightarrow> buffer \<Rightarrow> string" where
  "hashSHA256 V buf = nv_sha256_hex V buf"

definition signData :: "node_service \<Rightarrow> buffer \<Rightarrow> string \<Rightarrow> string option" where
  "signData V buf privateKeyPath =
     (case nv_readFileSync V privateKeyPath of
        None \<Rightarrow> None
      | Some privateKey \<Rightarrow> map_option (nv_to_base64 V) (nv_sign V privateKey buf))"

text \<open>\<^verbatim>\<open>verifySignature\<close> catches every exception and answers \<^verbatim>\<open>false\<close>.\<close>

definition verifySignature :: "node_service \<Rightarrow> buffer \<Rightarrow> string \<Rightarrow> string \<Rightarrow> bool" where
  "verifySignature V buf signature publicKeyPath =
     (case nv_readFileSync V publicKeyPath of
        None \<Rightarrow> False
      | Some publicKey \<Rightarrow>
          (case nv_verify V publicKey buf (nv_from_base64 V signature) of
             None \<Rightarrow> False
           | Some b \<Rightarrow> b))"

text \<open>The package \<^verbatim>\<open>encryptFile\<close> returns (\<^verbatim>\<open>encryptedData\<close>, \<^verbatim>\<open>iv\<close>,
  \<^verbatim>\<open>encryptedKey\<close>, \<^verbatim>\<open>hash\<close>) and the one \<^verbatim>\<open>decryptFile\<close> returns (\<^verbatim>\<open>data\<close>,
  \<^verbatim>\<open>hashVerified\<close>, \<^verbatim>\<open>originalHash\<close>, \<^verbatim>\<open>calculatedHash\<close>).\<close>

record encrypted_package =
  encryptedData :: string
  pkg_iv :: string
  encryptedKey :: string
  pkg_hash :: string

record decrypted_package =
  pkg_data :: buffer
  hashVerified :: bool
  originalHash :: string
  calculatedHash :: string

definition encryptFile ::
  "node_service \<Rightarrow> buffer \<Rightarrow> buffer \<Rightarrow> buffer \<Rightarrow> buffer \<Rightarrow> string \<Rightarrow> encrypted_package option" where
  "encryptFile V aesKey iv seed fileBuffer publicKeyPath =
     (let encryptedFile = encryptAES V fileBuffer aesKey iv in
      case encryptKeyWithRSA V seed aesKey publicKeyPath of
        None \<Rightarrow> None
      | Some encKey \<Rightarrow>
          Some \<lparr>encryptedData = nv_to_base64 V encryptedFile,
                pkg_iv = nv_to_base64 V iv,
                encryptedKey = nv_to_base64 V encKey,
                pkg_hash = hashSHA256 V fileBuffer\<rparr>)"

text \<open>\<^verbatim>\<open>decryptFile\<close> raises (\<open>None\<close>) when unwrapping or decrypting raises. Otherwise
  it returns the decrypted bytes together with the outcome of the hash comparison.\<close>

definition decryptFile :: "node_service \<Rightarrow> encrypted_package \<Rightarrow> string \<Rightarrow> decrypted_package option" where
  "decryptFile V encryptedPackage privateKeyPath =
     (let encryptedKeyBuffer = nv_from_base64 V (encryptedKey encryptedPackage) in
      case decryptKeyWithRSA V encryptedKeyBuffer privateKeyPath of
        None \<Rightarrow> None
      | Some aesKey \<Rightarrow>
          let iv = nv_from_base64 V (pkg_iv encryptedPackage);
              encryptedFileBuffer = nv_from_base64 V (encryptedData encryptedPackage)
          in (case decryptAES V encryptedFileBuffer aesKey iv of
                None \<Rightarrow> None
              | Some decryptedFile \<Rightarrow>
                  let calculated = hashSHA256 V decryptedFile;
                      verified = (calculated = pkg_hash encryptedPackage)
                  in Some \<lparr>pkg_data = decryptedFile, hashVerified = verified,
                            originalHash = pkg_hash encryptedPackage,
                            calculatedHash = calculated\<rparr>))"


section \<open>research-portal/controllers: download, passcode check, decisions\<close>

text \<open>The fields of a stored paper that the handlers below read or write, and the
  answers of this implementation: an error with its status, a success with its status and
  message, a file sent to the client, and the signature check's verdict.\<close>

record paper_doc =
  pd_fileName :: string
  pd_encryptedData :: string
  pd_encryptedIV :: string
  pd_encryptedAESKey :: string
  pd_fileHash :: string
  pd_status :: string
  pd_finalDecision :: "string option"

datatype sresponse =
    SError nat string
  | SOk nat string
  | SFile string buffer
  | SVerdict string bool

text \<open>\<^verbatim>\<open>downloadPaper\<close> of paperController.js: the file is sent only when
  \<^verbatim>\<open>hashVerified\<close> is true.\<close>

definition downloadPaper ::
  "node_service \<Rightarrow> string \<Rightarrow> (string \<rightharpoonup> paper_doc) \<Rightarrow> string \<Rightarrow> sresponse" where
  "downloadPaper V privateKeyPath paperColl paperId =
     (case paperColl paperId of
        None \<Rightarrow> SError 404 ''Paper not found''
      | Some paper \<Rightarrow>
          let encryptedPackage =
                \<lparr>encryptedData = pd_encryptedData paper, pkg_iv = pd_encryptedIV paper,
                 encryptedKey = pd_encryptedAESKey paper, pkg_hash = pd_fileHash paper\<rparr>
          in (case decryptFile V encryptedPackage privateKeyPath of
                None \<Rightarrow> SError 500 ''Failed to decrypt file''
              | Some decryptedPackage \<Rightarrow>
                  if \<not> hashVerified decryptedPackage then
                    SError 400 ''File integrity check failed. File may be corrupted.''
                  else SFile (pd_fileName paper) (pkg_data decryptedPackage)))"








text \<open>
  decisionController.js. A document of the \<^verbatim>\<open>Decision\<close> collection; the collection is
  kept in insertion order, \<^verbatim>\<open>findOne({ paperId })\<close> returns the first match and
  \<^verbatim>\<open>findByIdAndUpdate(id, decisionData)\<close> overwrites the fields of
  \<^verbatim>\<open>decisionData\<close> in the document with that id, leaving \<^verbatim>\<open>_id\<close> and
  \<^verbatim>\<open>createdAt\<close> as they were. The review summary and the average rating are computed
  from the \<^verbatim>\<open>Review\<close> collection and passed in. Ids are strings in the form
  \<^verbatim>\<open>ObjectId.toString\<close> returns, so that the paper id of a request and the stored one
  are the same string.
\<close>

record decision_doc =
  dd_id :: string
  dd_paperId :: string
  dd_decision :: string
  dd_summary :: string
  dd_editorId :: string
  dd_editorEmail :: string
  dd_reviewsSummary :: string
  dd_averageRating :: string
  dd_decidedAt :: int
  dd_signature :: string
  dd_signatureAlgorithm :: string
  dd_createdAt :: int

record decision_req =
  rq_paperId :: string
  rq_userId :: string
  rq_userEmail :: string
  rq_decision :: string
  rq_summary :: string
  rq_reviewsSummary :: string
  rq_averageRating :: string

definition findOne_paperId :: "decision_doc list \<Rightarrow> string \<Rightarrow> decision_doc option" where
  "findOne_paperId coll pid = find (\<lambda>d. dd_paperId d = pid) coll"

definition findById :: "decision_doc list \<Rightarrow> string \<Rightarrow> decision_doc option" where
  "findById coll i = find (\<lambda>d. dd_id d = i) coll"

definition findByIdAndUpdate ::
  "decision_doc list \<Rightarrow> string \<Rightarrow> (decision_doc \<Rightarrow> decision_doc) \<Rightarrow> decision_doc list" where
  "findByIdAndUpdate coll i upd = map (\<lambda>d. if dd_id d = i then upd d else d) coll"

text \<open>The string that is signed, and the one that is rebuilt for verification.\<close>

definition dataToSign :: "node_service \<Rightarrow> string \<Rightarrow> string \<Rightarrow> string \<Rightarrow> int \<Rightarrow> string" where
  "dataToSign V paperId dec summary t =
     nv_stringify V [(''paperId'', paperId), (''decision'', dec), (''summary'', summary),
                     (''decidedAt'', nv_toISOString V t)]"

definition dataToVerify :: "node_service \<Rightarrow> decision_doc \<Rightarrow> string" where
  "dataToVerify V d =
     nv_stringify V [(''paperId'', dd_paperId d), (''decision'', dd_decision d),
                     (''summary'', dd_summary d),
                     (''decidedAt'', nv_toISOString V (dd_decidedAt d))]"

text \<open>\<^verbatim>\<open>makeDecision\<close>. \<open>t_decided\<close> is the clock reading stored as
  \<^verbatim>\<open>decidedAt\<close>, \<open>t_signed\<close> the later reading that goes into the signed string, and
  \<open>newId\<close> the id a new document gets.\<close>

definition makeDecision ::
  "node_service \<Rightarrow> string \<Rightarrow> int \<Rightarrow> int \<Rightarrow> string \<Rightarrow> decision_req
     \<Rightarrow> (string \<rightharpoonup> paper_doc) \<Rightarrow> decision_doc list
     \<Rightarrow> sresponse \<times> (string \<rightharpoonup> paper_doc) \<times> decision_doc list" where
  "makeDecision V privateKeyPath t_decided t_signed newId rq paperColl coll =
     (if rq_decision rq = [] \<or> rq_summary rq = [] then
        (SError 400 ''Decision and summary required'', paperColl, coll)
      else if rq_decision rq \<notin> set [''ACCEPTED'', ''REJECTED'', ''REVISION_REQUESTED''] then
        (SError 400 ''Invalid decision type'', paperColl, coll)
      else if length (rq_summary rq) < 50 then
        (SError 400 ''Summary must be at least 50 characters'', paperColl, coll)
      else
        (case paperColl (rq_paperId rq) of
           None \<Rightarrow> (SError 404 ''Paper not found'', paperColl, coll)
         | Some paper \<Rightarrow>
             let toSign = dataToSign V (rq_paperId rq) (rq_decision rq) (rq_summary rq) t_signed
             in (case signData V (nv_from_string V toSign) privateKeyPath of
                   None \<Rightarrow> (SError 500 ''Failed to digitally sign decision'', paperColl, coll)
                 | Some signature \<Rightarrow>
                     let existing = findOne_paperId coll (rq_paperId rq);
                         did = (case existing of None \<Rightarrow> newId | Some d \<Rightarrow> dd_id d);
                         coll1 =
                           (case existing of
                              Some d \<Rightarrow>
                                findByIdAndUpdate coll (dd_id d)
                                  (\<lambda>d. d\<lparr>dd_paperId := rq_paperId rq,
                                          dd_decision := rq_decision rq,
                                          dd_summary := nv_trim V (rq_summary rq),
                                          dd_editorId := rq_userId rq,
                                          dd_editorEmail := rq_userEmail rq,
                                          dd_reviewsSummary := rq_reviewsSummary rq,
                                          dd_averageRating := rq_averageRating rq,
                                          dd_decidedAt := t_decided,
                                          dd_signature := signature,
                                          dd_signatureAlgorithm := ''RSA-PSS with SHA-256''\<rparr>)
                            | None \<Rightarrow>
                                coll @ [\<lparr>dd_id = newId, dd_paperId = rq_paperId rq,
                                         dd_decision = rq_decision rq,
                                         dd_summary = nv_trim V (rq_summary rq),
                                         dd_editorId = rq_userId rq,
                                         dd_editorEmail = rq_userEmail rq,
                                         dd_reviewsSummary = rq_reviewsSummary rq,
                                         dd_averageRating = rq_averageRating rq,
                                         dd_decidedAt = t_decided,
                                         dd_signature = signature,
                                         dd_signatureAlgorithm = ''RSA-PSS with SHA-256'',
                                         dd_createdAt = t_decided\<rparr>]);
                         paper1 = paper\<lparr>pd_status :=
                                          (if rq_decision rq = ''ACCEPTED'' then ''ACCEPTED''
                                           else if rq_decision rq = ''REJECTED'' then ''REJECTED''
                                           else ''REVISION_REQUESTED''),
                                        pd_finalDecision := Some did\<rparr>
                     in (SOk 201 ''Decision recorded and digitally signed'',
                         paperColl(rq_paperId rq \<mapsto> paper1), coll1))))"

text \<open>\<^verbatim>\<open>verifyDecisionSignature\<close>.\<close>

definition verifyDecisionSignature ::
  "node_service \<Rightarrow> string \<Rightarrow> decision_doc list \<Rightarrow> string \<Rightarrow> sresponse" where
  "verifyDecisionSignature V publicKeyPath coll decisionId =
     (case findById coll decisionId of
        None \<Rightarrow> SError 404 ''Decision not found''
      | Some d \<Rightarrow>
          SVerdict decisionId
            (verifySignature V (nv_from_string V (dataToVerify V d)) (dd_signature d)
               publicKeyPath))"


section \<open>What the theorems assume of the primitives\<close>

text \<open>
  Functional correctness of the primitives, stated for the sizes the server uses (a 32-byte
  AES key, a 12-byte nonce): Base64 decoding inverts encoding, GCM decryption under the same
  key and nonce returns the plaintext, and a private key unwraps what its public key
  wrapped. \<open>keypair_ok N pub priv\<close> says that \<open>priv\<close> is the private half of \<open>pub\<close>.
\<close>

definition base64_ok :: "node_server \<Rightarrow> bool" where
  "base64_ok N \<longleftrightarrow>
     (\<forall>b. ns_from_base64 N (ns_to_base64 N b) = b) \<and> ns_to_base64 N [] = []"

definition gcm_ok :: "node_server \<Rightarrow> bool" where
  "gcm_ok N \<longleftrightarrow>
     (\<forall>key iv pt. length key = 32 \<and> length iv = 12 \<longrightarrow>
        ns_gcm_decrypt N key iv (snd (ns_gcm_encrypt N key iv pt)) (fst (ns_gcm_encrypt N key iv pt))
          = Some pt)"

definition keypair_ok :: "node_server \<Rightarrow> string \<Rightarrow> string \<Rightarrow> bool" where
  "keypair_ok N pub priv \<longleftrightarrow>
     (\<forall>seed m c. length m = 32 \<and> ns_publicEncrypt N seed pub m = Some c \<longrightarrow>
        c \<noteq> [] \<and> ns_privateDecrypt N priv c = Some m)"

text \<open>What the theorems assume of the second implementation's primitives: Base64 decoding
  inverts encoding, CBC decryption under the same 32-byte key and 16-byte IV returns the
  plaintext, and the two key files can be read and hold a key pair: wrapping a 32-byte key
  under the public one does not raise, and the private one unwraps the result.\<close>

definition svc_base64_ok :: "node_service \<Rightarrow> bool" where
  "svc_base64_ok V \<longleftrightarrow> (\<forall>b. nv_from_base64 V (nv_to_base64 V b) = b)"

definition cbc_ok :: "node_service \<Rightarrow> bool" where
  "cbc_ok V \<longleftrightarrow>
     (\<forall>key iv pt. length key = 32 \<and> length iv = 16 \<longrightarrow>
        nv_cbc_decrypt V key iv (nv_cbc_encrypt V key iv pt) = Some pt)"

definition keyfiles_ok :: "node_service \<Rightarrow> string \<Rightarrow> string \<Rightarrow> bool" where
  "keyfiles_ok V publicKeyPath privateKeyPath \<longleftrightarrow>
     (\<exists>pub priv. nv_readFileSync V publicKeyPath = Some pub
        \<and> nv_readFileSync V privateKeyPath = Some priv
        \<and> (\<forall>seed m. length m = 32 \<longrightarrow>
               (\<exists>c. nv_publicEncrypt V seed pub m = Some c
                   \<and> nv_privateDecrypt V priv c = Some m)))"


definition svc_sig_ok :: "node_service \<Rightarrow> string \<Rightarrow> string \<Rightarrow> bool" where
  "svc_sig_ok V publicKeyPath privateKeyPath \<longleftrightarrow>
     (\<exists>pub priv. nv_readFileSync V publicKeyPath = Some pub
        \<and> nv_readFileSync V privateKeyPath = Some priv
        \<and> (\<forall>d s. nv_sign V priv d = Some s \<longrightarrow> (\<forall>d'. nv_verify V pub d' s = Some (d' = d))))"

definition serial_ok :: "node_service \<Rightarrow> bool" where
  "serial_ok V \<longleftrightarrow>
     inj (nv_from_string V) \<and> inj (nv_toISOString V)
     \<and> (\<forall>a b c d a' b' c' d'.
          nv_stringify V [(''paperId'', a), (''decision'', b), (''summary'', c), (''decidedAt'', d)]
            = nv_stringify V [(''paperId'', a'), (''decision'', b'), (''summary'', c'),
                              (''decidedAt'', d')]
          \<longrightarrow> a = a' \<and> b = b' \<and> c = c' \<and> d = d')"


section \<open>An instance of the primitives and an example, for evaluating the handlers\<close>

text \<open>
  A small executable instance of the interface, used to run the handlers on concrete
  requests. Its cipher is the identity with the key and the nonce as tag, its key pairs
  have equal halves, its hash and encodings are the identity. It has the functional
  properties the theorems assume of the real primitives (decryption inverts encryption,
  a signature verifies on its own data only) and none of their secrecy.
\<close>

definition demo_node :: node_server where
  "demo_node =
     \<lparr>ns_gcm_encrypt = (\<lambda>key iv pt. (pt, key @ iv @ pt)),
      ns_gcm_decrypt = (\<lambda>key iv tag ct. if tag = key @ iv @ ct then Some ct else None),
      ns_publicEncrypt = (\<lambda>seed pem m. Some (pem @ ''|'' @ m)),
      ns_privateDecrypt = (\<lambda>pem c. if take (length pem + 1) c = pem @ ''|''
                                      then Some (drop (length pem + 1) c) else None),
      ns_sha256_hex = (\<lambda>b. b),
      ns_sign = (\<lambda>pem data. Some (pem @ ''|'' @ data)),
      ns_verify = (\<lambda>pem data sg. Some (sg = pem @ ''|'' @ data)),
      ns_to_base64 = (\<lambda>b. b),
      ns_from_base64 = (\<lambda>s. s),
      ns_from_utf8 = (\<lambda>s. s),
      ns_to_utf8 = (\<lambda>b. b),
      ns_from_hex = (\<lambda>s. s),
      ns_pbkdf2 = (\<lambda>pw salt. pw @ salt),
      ns_bcrypt_compare = (\<lambda>pw h. h = ''$'' @ pw)\<rparr>"

definition demo_user :: "string \<Rightarrow> string \<Rightarrow> user" where
  "demo_user e r =
     \<lparr>u_email = e, u_role = r, passwordHash = ''$pw-'' @ e, rsaPublicKey = ''key-'' @ e,
      rsaPrivateKeyEncrypted = \<lparr>enc_iv = ''n'', enc_tag = ''pw-'' @ e @ ''salt'' @ ''n'' @ ''key-'' @ e,
                                enc_ciphertext = ''key-'' @ e\<rparr>,
      rsaPrivSalt = ''salt'', failedLogins = 0, lockUntil = None, u_id = ''id-'' @ e\<rparr>"

definition demo_db :: db where
  "demo_db =
     \<lparr>users = [''alice'' \<mapsto> demo_user ''alice'' ''Author'',
               ''bob'' \<mapsto> demo_user ''bob'' ''Collaborator'',
               ''carol'' \<mapsto> demo_user ''carol'' ''Reviewer''],
      papers = Map.empty, reviews = Map.empty, otps = Map.empty, logs = []\<rparr>"

definition demo_session :: "string \<Rightarrow> string \<Rightarrow> session_user" where
  "demo_session e r = \<lparr>s_email = e, s_role = r, s_id = ''id-'' @ e\<rparr>"

definition demo_key :: buffer where
  "demo_key = ''0123456789abcdef0123456789abcdef''"

definition demo_iv :: buffer where
  "demo_iv = ''0123456789ab''"

definition demo_entropy :: "string \<Rightarrow> entropy" where
  "demo_entropy i = \<lparr>e_aesKey = demo_key, e_iv = demo_iv, e_seed = (\<lambda>r. ''s''), e_id = i\<rparr>"

definition demo_body :: "string list \<Rightarrow> string list \<Rightarrow> paper_req" where
  "demo_body cs rs =
     \<lparr>q_title = ''T'', q_metadata = ''M'', q_fileBase64 = ''hello'',
      q_collaborators = cs, q_reviewers = rs\<rparr>"


definition demo_sealed :: db where
  "demo_sealed =
     snd (post_papers demo_node 0 (demo_entropy ''p1'') (demo_session ''alice'' ''Author'')
            (demo_body [''bob''] [''carol'']) demo_db)"


definition demo_reviewed :: db where
  "demo_reviewed =
     snd (post_review demo_node 5 (demo_entropy ''r1'') (demo_session ''carol'' ''Reviewer'')
            ''p1'' ''fine'' demo_sealed)"

text \<open>Five wrong passwords.\<close>

definition demo_tries :: "(int \<times> string) list" where
  "demo_tries = [(1, ''x''), (2, ''x''), (3, ''x''), (4, ''x''), (5, ''x'')]"

text \<open>An instance of the second implementation's primitives, as for the server: identity cipher, hash and encodings, key files whose two halves
  hold the same text, a signature that is the key followed by the data. An object is
  rendered as its values one after the other, each character preceded by \<^verbatim>\<open>1\<close> and
  each value closed by \<^verbatim>\<open>0\<close>; an instant as its sign and that many \<^verbatim>\<open>x\<close>.\<close>

fun demo_quote :: "string \<Rightarrow> string" where
  "demo_quote [] = ''0''"
| "demo_quote (c # cs) = CHR ''1'' # c # demo_quote cs"

definition demo_service :: node_service where
  "demo_service =
     \<lparr>nv_cbc_encrypt = (\<lambda>key iv pt. pt),
      nv_cbc_decrypt = (\<lambda>key iv ct. Some ct),
      nv_publicEncrypt = (\<lambda>seed pem m. Some (pem @ ''|'' @ m)),
      nv_privateDecrypt = (\<lambda>pem c. if take (length pem + 1) c = pem @ ''|''
                                      then Some (drop (length pem + 1) c) else None),
      nv_sha256_hex = (\<lambda>b. b),
      nv_sign = (\<lambda>pem d. Some (pem @ ''|'' @ d)),
      nv_verify = (\<lambda>pem d sg. Some (sg = pem @ ''|'' @ d)),
      nv_to_base64 = (\<lambda>b. b),
      nv_from_base64 = (\<lambda>s. s),
      nv_from_string = (\<lambda>s. s),
      nv_readFileSync = (\<lambda>path. if path = ''public.pem'' \<or> path = ''private.pem''
                                   then Some ''K'' else None),
      nv_stringify = (\<lambda>kvs. concat (map (\<lambda>(k, v). demo_quote v) kvs)),
      nv_toISOString = (\<lambda>t. (if t < 0 then ''-'' else ''+'') @ replicate (nat \<bar>t\<bar>) CHR ''x''),
      nv_trim = (\<lambda>s. s)\<rparr>"

definition demo_iv16 :: buffer where
  "demo_iv16 = ''0123456789abcdef''"

definition demo_package :: encrypted_package where
  "demo_package =
     \<lparr>encryptedData = ''hello'', pkg_iv = demo_iv16, encryptedKey = ''K|'' @ demo_key,
      pkg_hash = ''hello''\<rparr>"

definition demo_store :: key_store where
  "demo_store = [''sb'' \<mapsto> \<lparr>privateKeyPem = ''key-bob'', expiresAt = 100\<rparr>]"

text \<open>The sealed paper of the example with its stored tag overwritten, and a stored
  document of the second implementation.\<close>

definition demo_tampered_paper :: paper where
  "demo_tampered_paper =
     \<lparr>p_id = ''p1'', title = ''T'', metadata = ''M'', owner = ''alice'',
      collaborators = [''bob''], reviewers = [''carol''],
      versions = [\<lparr>v_ts = 0, v_enc = \<lparr>enc_iv = demo_iv, enc_tag = ''forged'',
                                       enc_ciphertext = ''hello''\<rparr>, v_hash = ''hello''\<rparr>],
      encryptedKeys = [''alice'' \<mapsto> ''key-alice|'' @ demo_key, ''bob'' \<mapsto> ''key-bob|'' @ demo_key,
                       ''carol'' \<mapsto> ''key-carol|'' @ demo_key],
      p_decision = None\<rparr>"

definition demo_tampered :: db where
  "demo_tampered = demo_sealed\<lparr>papers := [''p1'' \<mapsto> demo_tampered_paper]\<rparr>"

definition demo_paper_doc :: paper_doc where
  "demo_paper_doc =
     \<lparr>pd_fileName = ''f.pdf'', pd_encryptedData = ''hello'', pd_encryptedIV = demo_iv16,
      pd_encryptedAESKey = ''K|'' @ demo_key, pd_fileHash = ''hello'', pd_status = ''SUBMITTED'',
      pd_finalDecision = None\<rparr>"










text \<open>The example continued: Bob, a collaborator of the sealed paper, issues a decision
  at time 10.\<close>

definition demo_decided :: db where
  "demo_decided =
     fst (snd (post_decision demo_node 10 ''sb'' (demo_session ''bob'' ''Collaborator'')
                 ''p1'' ''accept'' demo_sealed demo_store))"

definition demo_decision :: decision where
  "demo_decision =
     \<lparr>d_by = ''bob'', decisionText = ''accept'', d_hash = ''accept'',
      d_signature = ''key-bob|accept'', d_ts = 10\<rparr>"



text \<open>A decision request of the second implementation and the collection after it.\<close>

definition demo_rq :: "string \<Rightarrow> char \<Rightarrow> decision_req" where
  "demo_rq outcome c =
     \<lparr>rq_paperId = ''P'', rq_userId = ''e1'', rq_userEmail = ''ed@x.org'',
      rq_decision = outcome, rq_summary = replicate 50 c, rq_reviewsSummary = [],
      rq_averageRating = ''0''\<rparr>"

definition demo_coll1 :: "decision_doc list" where
  "demo_coll1 =
     snd (snd (makeDecision demo_service ''private.pem'' 1 1 ''d1'' (demo_rq ''ACCEPTED'' CHR ''a'')
                 [''P'' \<mapsto> demo_paper_doc] []))"

definition demo_coll2 :: "decision_doc list" where
  "demo_coll2 =
     snd (snd (makeDecision demo_service ''private.pem'' 2 2 ''d2'' (demo_rq ''REJECTED'' CHR ''b'')
                 [''P'' \<mapsto> demo_paper_doc] demo_coll1))"

definition demo_doc1 :: decision_doc where
  "demo_doc1 =
     \<lparr>dd_id = ''d1'', dd_paperId = ''P'', dd_decision = ''ACCEPTED'',
      dd_summary = replicate 50 CHR ''a'', dd_editorId = ''e1'', dd_editorEmail = ''ed@x.org'',
      dd_reviewsSummary = [], dd_averageRating = ''0'', dd_decidedAt = 1,
      dd_signature = ''K|'' @ dataToSign demo_service ''P'' ''ACCEPTED'' (replicate 50 CHR ''a'') 1,
      dd_signatureAlgorithm = ''RSA-PSS with SHA-256'', dd_createdAt = 1\<rparr>"


section \<open>Properties of the key store\<close>

text \<open>
  C7. A private key bound to a session at time \<open>t0\<close> expires at \<open>t0 + 7200000\<close> ms. A lookup
  at any time strictly later, with the store untouched in between, returns no key, and the
  store it leaves behind has no entry for that session while every other entry is as it
  was; a further lookup therefore finds nothing either.
\<close>

theorem lookup_after_ttl_returns_none_and_evicts:
  assumes "now > t0 + 2 * 60 * 60 * 1000"
  shows "fst (getPrivateKeyForSession now sid (storePrivateKeyForSession t0 sid pem store)) = None
       \<and> snd (getPrivateKeyForSession now sid (storePrivateKeyForSession t0 sid pem store)) sid = None
       \<and> snd (getPrivateKeyForSession now sid (storePrivateKeyForSession t0 sid pem store))
           = (storePrivateKeyForSession t0 sid pem store)(sid := None)
       \<and> (\<forall>other. other \<noteq> sid \<longrightarrow>
             snd (getPrivateKeyForSession now sid (storePrivateKeyForSession t0 sid pem store)) other
               = store other)"
  using assms by (simp add: getPrivateKeyForSession_def storePrivateKeyForSession_def)

theorem lookup_after_ttl_witness:
  "fst (getPrivateKeyForSession 7200001 ''s1'' (storePrivateKeyForSession 0 ''s1'' ''PEM'' Map.empty)) = None
   \<and> snd (getPrivateKeyForSession 7200001 ''s1'' (storePrivateKeyForSession 0 ''s1'' ''PEM'' Map.empty)) ''s1'' = None
   \<and> fst (getPrivateKeyForSession 7200000 ''s1'' (storePrivateKeyForSession 0 ''s1'' ''PEM'' Map.empty)) = Some ''PEM''"
proof -
  have h: "(7200001::int) > 0 + 2 * 60 * 60 * 1000" by simp
  have "fst (getPrivateKeyForSession 7200000 ''s1'' (storePrivateKeyForSession 0 ''s1'' ''PEM'' Map.empty)) = Some ''PEM''"
    by (simp add: getPrivateKeyForSession_def storePrivateKeyForSession_def)
  with lookup_after_ttl_returns_none_and_evicts [OF h, of "''s1''" "''PEM''" Map.empty]
  show ?thesis by simp
qed


section \<open>Properties of the access control matrix\<close>

text \<open>
  C8. The check is meant to deny every triple that the matrix does not list. It does not:
  the role \<^verbatim>\<open>constructor\<close> is no key of the matrix, yet \<^verbatim>\<open>ACL['constructor']\<close> is the
  inherited \<^verbatim>\<open>Object\<close> function, whose \<^verbatim>\<open>name\<close> is the string \<^verbatim>\<open>'Object'\<close>, and
  \<^verbatim>\<open>'Object'.includes('Object')\<close> holds, so the check answers true.
\<close>

theorem checkAccess_inherited_role_allows:
  "checkAccess ''constructor'' ''name'' ''Object'' = Normal True"
  by (simp add: checkAccess_def ACL_def js_get_def object_prototype_member_def truthy_def
        js_includes_def)


section \<open>Properties of sealing\<close>

lemmas demo_defs =
  demo_session_def demo_body_def demo_node_def demo_entropy_def demo_db_def demo_user_def

lemmas acl_defs =
  checkAccess_def ACL_def js_get_def truthy_def js_includes_def object_prototype_member_def

text \<open>On the three roles and the three object types the check is the table.\<close>

lemma checkAccess_matrix:
  "checkAccess ''Author'' ''Paper'' a = Normal (a \<in> {''create'', ''read'', ''update''})"
  "checkAccess ''Author'' ''Review'' a = Normal False"
  "checkAccess ''Author'' ''FinalDecision'' a = Normal (a = ''read'')"
  "checkAccess ''Collaborator'' ''Paper'' a = Normal (a \<in> {''read'', ''update''})"
  "checkAccess ''Collaborator'' ''Review'' a = Normal (a = ''read'')"
  "checkAccess ''Collaborator'' ''FinalDecision'' a = Normal (a \<in> {''create'', ''read''})"
  "checkAccess ''Reviewer'' ''Paper'' a = Normal (a = ''read'')"
  "checkAccess ''Reviewer'' ''Review'' a = Normal (a = ''create'')"
  "checkAccess ''Reviewer'' ''FinalDecision'' a = Normal False"
  by (simp_all add: acl_defs)

lemma checkAccess_unknown_role:
  "map_of [(''Author'', ()), (''Collaborator'', ()), (''Reviewer'', ())] role = None \<Longrightarrow>
   object_prototype_member role = JUndefined \<Longrightarrow> role \<noteq> ''__proto__'' \<Longrightarrow>
   checkAccess role objectType a = Normal False"
  by (simp add: acl_defs split: if_splits)

lemma checkAccess_Author_create: "checkAccess ''Author'' ''Paper'' ''create'' = Normal True"
  by (simp add: acl_defs)

lemma checkAccess_Reviewer_review: "checkAccess ''Reviewer'' ''Review'' ''create'' = Normal True"
  by (simp add: acl_defs)

lemma checkAccess_Paper_read:
  "role = ''Author'' \<or> role = ''Collaborator'' \<or> role = ''Reviewer'' \<Longrightarrow>
   checkAccess role ''Paper'' ''read'' = Normal True"
  by (elim disjE) (simp_all add: acl_defs)

lemma indexOf_nonneg_iff: "indexOf a v \<ge> 0 \<longleftrightarrow> v \<in> set a"
  by (induction a) (auto simp: Let_def)

lemma indexOf_lt: "v \<in> set a \<Longrightarrow> indexOf a v < int (length a)"
  by (induction a) (auto simp: Let_def)

lemma indexOf_nth: "v \<in> set a \<Longrightarrow> a ! nat (indexOf a v) = v"
proof (induction a)
  case Nil
  then show ?case by simp
next
  case (Cons x xs)
  show ?case
  proof (cases "x = v")
    case True
    then show ?thesis by simp
  next
    case False
    with Cons.prems have v: "v \<in> set xs" by simp
    then have nn: "0 \<le> indexOf xs v" by (simp add: indexOf_nonneg_iff)
    then have "nat (indexOf xs v + 1) = Suc (nat (indexOf xs v))" by simp
    with False nn Cons.IH [OF v] show ?thesis by (simp add: Let_def)
  qed
qed

lemma set_first_occurrences: "set (first_occurrences a) = set a"
proof
  show "set (first_occurrences a) \<subseteq> set a"
    by (auto simp: first_occurrences_def dest: set_zip_leftD)
  show "set a \<subseteq> set (first_occurrences a)"
  proof
    fix v assume v: "v \<in> set a"
    let ?i = "nat (indexOf a v)"
    have i: "?i < length a" using indexOf_lt[OF v] indexOf_nonneg_iff[of a v] v by linarith
    have "(v, ?i) \<in> set (zip a [0..<length a])"
      using i indexOf_nth[OF v] by (auto simp: set_zip intro!: exI[of _ ?i])
    moreover have "indexOf a v = int ?i" using indexOf_nonneg_iff[of a v] v by simp
    ultimately show "v \<in> set (first_occurrences a)"
      by (force simp: first_occurrences_def)
  qed
qed

lemma wrap_keys_dom:
  "wrap_keys N seed us k rs acc = Some keys \<Longrightarrow>
   dom keys = dom acc \<union> {r \<in> set rs. \<exists>u. us r = Some u \<and> rsaPublicKey u \<noteq> []}"
  by (induction rs arbitrary: acc) (auto split: option.splits if_splits)

lemma post_papers_ok:
  assumes "post_papers N now E user body DB = (JsonOkId pid, DB1)"
  shows "\<exists>keys. wrap_keys N (e_seed E) (users DB) (e_aesKey E)
            (first_occurrences (s_email user # q_collaborators body @ q_reviewers body))
            Map.empty = Some keys
         \<and> pid = e_id E
         \<and> q_title body \<noteq> [] \<and> q_fileBase64 body \<noteq> []
         \<and> users DB1 = users DB
         \<and> papers DB1 pid = Some
              \<lparr>p_id = pid, title = q_title body, metadata = q_metadata body,
               owner = s_email user, collaborators = q_collaborators body,
               reviewers = q_reviewers body,
               versions = [\<lparr>v_ts = now,
                            v_enc = aesEncrypt N (e_iv E) (ns_from_base64 N (q_fileBase64 body))
                                      (e_aesKey E),
                            v_hash = sha256 N (ns_from_base64 N (q_fileBase64 body))\<rparr>],
               encryptedKeys = keys, p_decision = None\<rparr>"
  using assms
  by (auto simp: post_papers_def Let_def logEvent_def
           split: completion.splits bool.splits if_splits option.splits)

lemma post_review_ok:
  assumes "post_review N now E user pid reviewBase64 DB = (JsonOkId rid, DB1)"
  shows "\<exists>keys paper. papers DB pid = Some paper
         \<and> wrap_keys N (e_seed E) (users DB) (e_aesKey E) (owner paper # collaborators paper)
              Map.empty = Some keys
         \<and> rid = e_id E
         \<and> reviews DB1 rid = Some
              \<lparr>r_id = rid, r_pid = pid, r_by = s_email user,
               r_enc = aesEncrypt N (e_iv E) (ns_from_base64 N reviewBase64) (e_aesKey E),
               r_hash = sha256 N (ns_from_base64 N reviewBase64), r_encryptedKeys = keys,
               r_ts = now\<rparr>"
  using assms
  by (auto simp: post_review_def Let_def logEvent_def simp del: wrap_keys.simps
           split: completion.splits bool.splits if_splits option.splits)

lemma demo_sealed_eq:
  "post_papers demo_node 0 (demo_entropy ''p1'') (demo_session ''alice'' ''Author'')
      (demo_body [''bob''] [''carol'']) demo_db = (JsonOkId ''p1'', demo_sealed)"
  by (simp add: demo_sealed_def post_papers_def checkAccess_Author_create demo_defs
        first_occurrences_def sha256_def aesEncrypt_def rsaEncrypt_def logEvent_def Let_def)

lemma demo_sealed_paper:
  "papers demo_sealed ''p1'' = Some
     \<lparr>p_id = ''p1'', title = ''T'', metadata = ''M'', owner = ''alice'',
      collaborators = [''bob''], reviewers = [''carol''],
      versions = [\<lparr>v_ts = 0, v_enc = \<lparr>enc_iv = demo_iv, enc_tag = demo_key @ demo_iv @ ''hello'',
                                       enc_ciphertext = ''hello''\<rparr>, v_hash = ''hello''\<rparr>],
      encryptedKeys = [''alice'' \<mapsto> ''key-alice|'' @ demo_key, ''bob'' \<mapsto> ''key-bob|'' @ demo_key,
                       ''carol'' \<mapsto> ''key-carol|'' @ demo_key],
      p_decision = None\<rparr>"
  by (simp add: demo_sealed_def post_papers_def checkAccess_Author_create demo_defs
        first_occurrences_def sha256_def aesEncrypt_def rsaEncrypt_def logEvent_def Let_def)

lemma demo_sealed_users: "users demo_sealed = users demo_db"
  using post_papers_ok [OF demo_sealed_eq] by blast

text \<open>
  C5, as the code has it. When a paper or a review is sealed, the key set of the stored
  wrapped-key map is the set of those listed recipients (owner, collaborators and reviewers
  of the paper; owner and collaborators of the reviewed paper) that are registered users
  with a non-empty public key at that moment. A map has one entry per key, so each of them
  has exactly one wrapped key and nobody else has one.
\<close>

theorem sealed_key_set_is_registered_recipients:
  "(post_papers N now E user body DB = (JsonOkId pid, DB1) \<longrightarrow>
      (\<exists>p. papers DB1 pid = Some p
          \<and> owner p = s_email user \<and> collaborators p = q_collaborators body
          \<and> reviewers p = q_reviewers body
          \<and> dom (encryptedKeys p) =
              {r \<in> set (owner p # collaborators p @ reviewers p).
                 \<exists>u. users DB r = Some u \<and> rsaPublicKey u \<noteq> []}))
 \<and> (post_review N' now' E' reviewer pid' reviewBase64 DB' = (JsonOkId rid, DB2) \<longrightarrow>
      (\<exists>rv p. reviews DB2 rid = Some rv \<and> papers DB' pid' = Some p
          \<and> dom (r_encryptedKeys rv) =
              {r \<in> set (owner p # collaborators p).
                 \<exists>u. users DB' r = Some u \<and> rsaPublicKey u \<noteq> []}))"
proof (intro conjI impI)
  assume a: "post_papers N now E user body DB = (JsonOkId pid, DB1)"
  from post_papers_ok [OF a] obtain keys where
    w: "wrap_keys N (e_seed E) (users DB) (e_aesKey E)
            (first_occurrences (s_email user # q_collaborators body @ q_reviewers body))
            Map.empty = Some keys"
    and p: "papers DB1 pid = Some
              \<lparr>p_id = pid, title = q_title body, metadata = q_metadata body,
               owner = s_email user, collaborators = q_collaborators body,
               reviewers = q_reviewers body,
               versions = [\<lparr>v_ts = now,
                            v_enc = aesEncrypt N (e_iv E) (ns_from_base64 N (q_fileBase64 body))
                                      (e_aesKey E),
                            v_hash = sha256 N (ns_from_base64 N (q_fileBase64 body))\<rparr>],
               encryptedKeys = keys, p_decision = None\<rparr>"
    by blast
  from wrap_keys_dom [OF w]
  show "\<exists>p. papers DB1 pid = Some p
          \<and> owner p = s_email user \<and> collaborators p = q_collaborators body
          \<and> reviewers p = q_reviewers body
          \<and> dom (encryptedKeys p) =
              {r \<in> set (owner p # collaborators p @ reviewers p).
                 \<exists>u. users DB r = Some u \<and> rsaPublicKey u \<noteq> []}"
    by (simp add: p set_first_occurrences)
next
  assume a: "post_review N' now' E' reviewer pid' reviewBase64 DB' = (JsonOkId rid, DB2)"
  from post_review_ok [OF a] obtain keys paper where
    pp: "papers DB' pid' = Some paper"
    and w: "wrap_keys N' (e_seed E') (users DB') (e_aesKey E') (owner paper # collaborators paper)
              Map.empty = Some keys"
    and r: "reviews DB2 rid = Some
              \<lparr>r_id = rid, r_pid = pid', r_by = s_email reviewer,
               r_enc = aesEncrypt N' (e_iv E') (ns_from_base64 N' reviewBase64) (e_aesKey E'),
               r_hash = sha256 N' (ns_from_base64 N' reviewBase64), r_encryptedKeys = keys,
               r_ts = now'\<rparr>"
    by blast
  from wrap_keys_dom [OF w]
  show "\<exists>rv p. reviews DB2 rid = Some rv \<and> papers DB' pid' = Some p
          \<and> dom (r_encryptedKeys rv) =
              {r \<in> set (owner p # collaborators p).
                 \<exists>u. users DB' r = Some u \<and> rsaPublicKey u \<noteq> []}"
    by (simp add: r pp)
qed

text \<open>The claim as stated fails: a listed collaborator who is not a registered user is
  stored as a collaborator of the paper and gets no wrapped key.\<close>

theorem unregistered_recipient_gets_no_key:
  "fst (post_papers demo_node 0 (demo_entropy ''p1'') (demo_session ''alice'' ''Author'')
          (demo_body [''ghost''] []) demo_db) = JsonOkId ''p1''
   \<and> collaborators (the (papers (snd (post_papers demo_node 0 (demo_entropy ''p1'')
          (demo_session ''alice'' ''Author'') (demo_body [''ghost''] []) demo_db)) ''p1''))
       = [''ghost'']
   \<and> dom (encryptedKeys (the (papers (snd (post_papers demo_node 0 (demo_entropy ''p1'')
          (demo_session ''alice'' ''Author'') (demo_body [''ghost''] []) demo_db)) ''p1'')))
       = {''alice''}"
  by (simp add: post_papers_def checkAccess_Author_create demo_defs
        first_occurrences_def sha256_def aesEncrypt_def rsaEncrypt_def logEvent_def Let_def)


lemma demo_reviewed_eq:
  "post_review demo_node 5 (demo_entropy ''r1'') (demo_session ''carol'' ''Reviewer'')
            ''p1'' ''fine'' demo_sealed = (JsonOkId ''r1'', demo_reviewed)"
  by (simp add: demo_reviewed_def post_review_def demo_sealed_paper demo_sealed_users
        checkAccess_Reviewer_review demo_defs sha256_def aesEncrypt_def rsaEncrypt_def
        logEvent_def Let_def)

lemma demo_registered:
  "(\<exists>u. users demo_db r = Some u \<and> rsaPublicKey u \<noteq> [])
     \<longleftrightarrow> r = ''alice'' \<or> r = ''bob'' \<or> r = ''carol''"
  by (simp add: demo_db_def demo_user_def)

theorem sealed_key_set_witness:
  "dom (encryptedKeys (the (papers demo_sealed ''p1''))) = {''alice'', ''bob'', ''carol''}
   \<and> dom (r_encryptedKeys (the (reviews demo_reviewed ''r1''))) = {''alice'', ''bob''}"
proof -
  note t = sealed_key_set_is_registered_recipients
             [of demo_node 0 "demo_entropy ''p1''" "demo_session ''alice'' ''Author''"
                 "demo_body [''bob''] [''carol'']" demo_db "''p1''" demo_sealed
                 demo_node 5 "demo_entropy ''r1''" "demo_session ''carol'' ''Reviewer''"
                 "''p1''" "''fine''" demo_sealed "''r1''" demo_reviewed]
  from t demo_sealed_eq obtain p where
    p: "papers demo_sealed ''p1'' = Some p"
       "dom (encryptedKeys p) = {r \<in> set (owner p # collaborators p @ reviewers p).
                 \<exists>u. users demo_db r = Some u \<and> rsaPublicKey u \<noteq> []}"
    by blast
  from t demo_reviewed_eq obtain rv q where
    r: "reviews demo_reviewed ''r1'' = Some rv" "papers demo_sealed ''p1'' = Some q"
       "dom (r_encryptedKeys rv) = {r \<in> set (owner q # collaborators q).
                 \<exists>u. users demo_sealed r = Some u \<and> rsaPublicKey u \<noteq> []}"
    by blast
  from p(1) have lp: "owner p # collaborators p @ reviewers p = [''alice'', ''bob'', ''carol'']"
    by (auto simp: demo_sealed_paper)
  from r(2) have lq: "owner q # collaborators q = [''alice'', ''bob'']"
    by (auto simp: demo_sealed_paper)
  have "dom (encryptedKeys p) = {''alice'', ''bob'', ''carol''}"
    unfolding p(2) lp demo_registered by auto
  moreover have "dom (r_encryptedKeys rv) = {''alice'', ''bob''}"
    unfolding r(3) lq demo_sealed_users demo_registered by auto
  ultimately show ?thesis using p(1) r(1) by simp
qed


section \<open>Properties of opening a sealed paper\<close>

lemma wrap_keys_lookup:
  "wrap_keys N seed us k rs acc = Some keys \<Longrightarrow> r \<in> set rs \<Longrightarrow>
   us r = Some u \<Longrightarrow> rsaPublicKey u \<noteq> [] \<Longrightarrow>
   \<exists>w. keys r = Some w \<and> rsaEncrypt N (seed r) (rsaPublicKey u) k = Some w"
proof (induction rs arbitrary: acc)
  case Nil
  then show ?case by simp
next
  case (Cons a rs)
  show ?case
  proof (cases "r \<in> set rs")
    case True
    with Cons show ?thesis by (auto split: option.splits if_splits)
  next
    case False
    with Cons.prems have ra: "r = a" by simp
    from Cons.prems ra obtain w where
      w: "rsaEncrypt N (seed r) (rsaPublicKey u) k = Some w"
      and rest: "wrap_keys N seed us k rs (acc(r \<mapsto> w)) = Some keys"
      by (auto split: option.splits)
    have keep: "\<And>acc'. wrap_keys N seed us k rs acc' = Some keys \<Longrightarrow> r \<notin> set rs \<Longrightarrow> keys r = acc' r"
    proof -
      fix acc' show "wrap_keys N seed us k rs acc' = Some keys \<Longrightarrow> r \<notin> set rs \<Longrightarrow> keys r = acc' r"
        by (induction rs arbitrary: acc') (auto split: option.splits if_splits)
    qed
    from keep [OF rest False] w show ?thesis by simp
  qed
qed

lemma base64_nonempty: "base64_ok N \<Longrightarrow> c \<noteq> [] \<Longrightarrow> ns_to_base64 N c \<noteq> []"
  unfolding base64_ok_def by metis

lemma aes_round_trip:
  "gcm_ok N \<Longrightarrow> base64_ok N \<Longrightarrow> length key = 32 \<Longrightarrow> length iv = 12 \<Longrightarrow>
   aesDecrypt N (aesEncrypt N iv pt key) key = Some pt"
  by (simp add: aesDecrypt_def aesEncrypt_def gcm_ok_def base64_ok_def split: prod.splits)
     (metis fst_conv snd_conv)

lemma rsa_round_trip:
  "keypair_ok N pub priv \<Longrightarrow> base64_ok N \<Longrightarrow> length m = 32 \<Longrightarrow>
   rsaEncrypt N seed pub m = Some w \<Longrightarrow> w \<noteq> [] \<and> rsaDecrypt N priv w = Some m"
proof -
  assume kp: "keypair_ok N pub priv" and b: "base64_ok N" and m: "length m = 32"
     and e: "rsaEncrypt N seed pub m = Some w"
  from e obtain c where c: "ns_publicEncrypt N seed pub m = Some c" "w = ns_to_base64 N c"
    by (auto simp: rsaEncrypt_def)
  from kp m c(1) have ok: "c \<noteq> []" "ns_privateDecrypt N priv c = Some m"
    unfolding keypair_ok_def by blast+
  from base64_nonempty [OF b ok(1)] c(2) have "w \<noteq> []" by simp
  moreover from b c(2) ok(2) have "rsaDecrypt N priv w = Some m"
    by (simp add: rsaDecrypt_def base64_ok_def)
  ultimately show ?thesis by simp
qed





lemma server_round_trip:
  assumes sealed: "post_papers N t0 E author body DB = (JsonOkId pid, DB1)"
      and key: "length (e_aesKey E) = 32" "length (e_iv E) = 12"
      and prim: "gcm_ok N" "base64_ok N"
      and rcpt: "s_email reader \<in> set (s_email author # q_collaborators body @ q_reviewers body)"
      and reg: "users DB (s_email reader) = Some u" "rsaPublicKey u \<noteq> []"
               "keypair_ok N (rsaPublicKey u) priv"
      and role: "s_role reader = ''Author'' \<or> s_role reader = ''Collaborator'' \<or> s_role reader = ''Reviewer''"
      and cust: "store sid = Some \<lparr>privateKeyPem = priv, expiresAt = exp\<rparr>" "now \<le> exp" "priv \<noteq> []"
  shows "get_paper N now sid reader pid DB1 store =
           (JsonPaper pid (q_title body) (q_metadata body)
              (ns_to_base64 N (ns_from_base64 N (q_fileBase64 body)))
              (sha256 N (ns_from_base64 N (q_fileBase64 body))),
            logEvent now DB1 [(''event'', LS ''paper_decrypted''), (''pid'', LS pid),
                              (''by'', LS (s_email reader))],
            store)"
proof -
  from post_papers_ok [OF sealed] obtain keys where
    w: "wrap_keys N (e_seed E) (users DB) (e_aesKey E)
            (first_occurrences (s_email author # q_collaborators body @ q_reviewers body))
            Map.empty = Some keys"
    and p: "papers DB1 pid = Some
              \<lparr>p_id = pid, title = q_title body, metadata = q_metadata body,
               owner = s_email author, collaborators = q_collaborators body,
               reviewers = q_reviewers body,
               versions = [\<lparr>v_ts = t0,
                            v_enc = aesEncrypt N (e_iv E) (ns_from_base64 N (q_fileBase64 body))
                                      (e_aesKey E),
                            v_hash = sha256 N (ns_from_base64 N (q_fileBase64 body))\<rparr>],
               encryptedKeys = keys, p_decision = None\<rparr>"
    by blast
  from rcpt have "s_email reader \<in> set (first_occurrences (s_email author # q_collaborators body @ q_reviewers body))"
    by (simp only: set_first_occurrences)
  from wrap_keys_lookup [OF w this reg(1) reg(2)] obtain wk where
    wk: "keys (s_email reader) = Some wk"
        "rsaEncrypt N (e_seed E (s_email reader)) (rsaPublicKey u) (e_aesKey E) = Some wk"
    by blast
  from rsa_round_trip [OF reg(3) prim(2) key(1) wk(2)]
  have un: "wk \<noteq> []" "rsaDecrypt N priv wk = Some (e_aesKey E)" by simp_all
  have dec: "aesDecrypt N (aesEncrypt N (e_iv E) (ns_from_base64 N (q_fileBase64 body)) (e_aesKey E)) (e_aesKey E)
               = Some (ns_from_base64 N (q_fileBase64 body))"
    by (rule aes_round_trip [OF prim key])
  have op: "open_payload N now sid wk
              (Some (aesEncrypt N (e_iv E) (ns_from_base64 N (q_fileBase64 body)) (e_aesKey E))) store
            = (Plain (ns_from_base64 N (q_fileBase64 body)), store)"
    using cust un dec by (simp add: open_payload_def getPrivateKeyForSession_def)
  from rcpt have mem: "s_email reader = s_email author \<or> s_email reader \<in> set (q_collaborators body) \<or> s_email reader \<in> set (q_reviewers body)"
    by auto
  show ?thesis
    using p wk(1) un(1) op mem checkAccess_Paper_read [OF role]
    by (simp add: get_paper_def)
qed






text \<open>\<^verbatim>\<open>requireAuth\<close> lets a request with a session user through and answers any other
  itself; the two other handlers that look a paper up by the id in the URL raise on an
  inherited name that is no own key.\<close>

lemma requireAuth_cases:
  "requireAuth now path (Some user) DB = None"
  "requireAuth now path None DB =
     Some (JsonError 401 ''auth required'',
           logEvent now DB [(''event'', LS ''unauthenticated_access''), (''path'', LS path)])"
  by (simp_all add: requireAuth_def)

lemma post_review_inherited:
  "papers DB pid = None \<Longrightarrow> inherited_name pid \<Longrightarrow>
   post_review N now E user pid reviewBase64 DB = (Threw ''TypeError'', DB)"
  by (simp add: post_review_def)

lemma post_decision_inherited:
  "papers DB pid = None \<Longrightarrow> inherited_name pid \<Longrightarrow>
   post_decision N now sid user pid dtext DB store = (Threw ''TypeError'', DB, store)"
  by (simp add: post_decision_def)


section \<open>Properties of login\<close>

lemma login_unknown:
  "users DB email = None \<Longrightarrow> \<not> inherited_name email \<Longrightarrow>
   login N now sid email password DB store =
     (JsonError 401 ''invalid'',
      logEvent now DB [(''event'', LS ''login_failed_unknown''), (''email'', LS email)],
      store, None)"
  by (simp add: login_def)

lemma login_inherited:
  "users DB email = None \<Longrightarrow> inherited_name email \<Longrightarrow>
   login N now sid email password DB store = (Threw ''Error'', DB, store, None)"
  by (simp add: login_def)

lemma login_locked:
  assumes "users DB email = Some user" "lockUntil user = Some t" "t \<noteq> 0" "now < t"
  shows "login N now sid email pw DB store =
           (JsonError 423 ''account locked'',
            logEvent now DB [(''event'', LS ''login_locked''), (''email'', LS email)], store, None)"
  using assms by (simp add: login_def locked_at_def)

lemma login_wrong:
  assumes "users DB email = Some user" "lockUntil user = None"
      and "\<not> verifyPassword N pw (passwordHash user)"
  shows "login N now sid email pw DB store =
           (JsonError 401 ''invalid'',
            logEvent now (DB\<lparr>users := (users DB)(email \<mapsto>
                 (if failedLogins user + 1 \<ge> 5
                  then user\<lparr>failedLogins := failedLogins user + 1,
                            lockUntil := Some (now + 15 * 60 * 1000)\<rparr>
                  else user\<lparr>failedLogins := failedLogins user + 1\<rparr>))\<rparr>)
              [(''event'', LS ''login_failed''), (''email'', LS email),
               (''failedAttempts'', LN (int (failedLogins user + 1)))],
            store, None)"
  using assms by (simp add: login_def locked_at_def Let_def)

lemma login_right_resets:
  assumes "users DB email = Some user" "\<not> locked_at now user"
      and "verifyPassword N pw (passwordHash user)"
  shows "users (fst (snd (login N now sid email pw DB store))) email
           = Some (user\<lparr>failedLogins := 0, lockUntil := None\<rparr>)
       \<and> (fst (login N now sid email pw DB store) = JsonOk
            \<or> fst (login N now sid email pw DB store) = JsonError 500 ''crypto'')"
  using assms by (simp add: login_def locked_at_def Let_def logEvent_def split: option.splits)

lemma login_seq_append:
  "login_seq N sid email (xs @ ys) DB store =
     (case login_seq N sid email xs DB store of
        (rs, DB1, st1) \<Rightarrow>
          (case login_seq N sid email ys DB1 st1 of
             (rs', DB2, st2) \<Rightarrow> (rs @ rs', DB2, st2)))"
  by (induction xs arbitrary: DB store) (auto split: prod.splits)

lemma login_seq_wrong:
  assumes "users DB email = Some user" "lockUntil user = None"
      and "failedLogins user + length tries < 5"
      and "\<forall>(t, pw) \<in> set tries. \<not> verifyPassword N pw (passwordHash user)"
  shows "\<exists>DB'. login_seq N sid email tries DB store
                 = (replicate (length tries) (JsonError 401 ''invalid''), DB', store)
           \<and> users DB' email = Some (user\<lparr>failedLogins := failedLogins user + length tries\<rparr>)"
  using assms
proof (induction tries arbitrary: DB user)
  case Nil
  then show ?case by simp
next
  case (Cons a tries)
  obtain t pw where a: "a = (t, pw)" by (cases a)
  let ?u1 = "user\<lparr>failedLogins := failedLogins user + 1\<rparr>"
  let ?DB1 = "logEvent t (DB\<lparr>users := (users DB)(email \<mapsto> ?u1)\<rparr>)
              [(''event'', LS ''login_failed''), (''email'', LS email),
               (''failedAttempts'', LN (int (failedLogins user + 1)))]"
  from Cons.prems a have w: "\<not> verifyPassword N pw (passwordHash user)" by simp
  from Cons.prems(3) have small: "\<not> failedLogins user + 1 \<ge> 5" by simp
  have step: "login N t sid email pw DB store = (JsonError 401 ''invalid'', ?DB1, store, None)"
    using login_wrong [OF Cons.prems(1) Cons.prems(2) w, of t sid store] small by simp
  have u1: "users ?DB1 email = Some ?u1" by (simp add: logEvent_def)
  have "\<exists>DB'. login_seq N sid email tries ?DB1 store
                 = (replicate (length tries) (JsonError 401 ''invalid''), DB', store)
           \<and> users DB' email = Some (?u1\<lparr>failedLogins := failedLogins ?u1 + length tries\<rparr>)"
    using Cons.prems by (intro Cons.IH [OF u1]) auto
  then obtain DB' where
    r: "login_seq N sid email tries ?DB1 store
                 = (replicate (length tries) (JsonError 401 ''invalid''), DB', store)"
       "users DB' email = Some (?u1\<lparr>failedLogins := failedLogins ?u1 + length tries\<rparr>)"
    by blast
  show ?case using a step r by simp
qed

lemma five_failures_lock:
  assumes user: "users DB email = Some user" "failedLogins user = 0" "lockUntil user = None"
      and five: "length tries = 5"
      and wrong: "\<forall>(t, pw) \<in> set tries. \<not> verifyPassword N pw (passwordHash user)"
  shows "\<exists>DB5. login_seq N sid email tries DB store = (replicate 5 (JsonError 401 ''invalid''), DB5, store)
          \<and> users DB5 email = Some (user\<lparr>failedLogins := 5,
                                          lockUntil := Some (fst (last tries) + 15 * 60 * 1000)\<rparr>)"
proof -
  from five have ne: "tries \<noteq> []" by auto
  obtain t pw where l: "last tries = (t, pw)" by (cases "last tries")
  have split: "tries = butlast tries @ [(t, pw)]" using ne l by (metis append_butlast_last_id)
  have len: "length (butlast tries) = 4" using five by simp
  have w4: "\<forall>(t, pw) \<in> set (butlast tries). \<not> verifyPassword N pw (passwordHash user)"
    using wrong by (auto dest: in_set_butlastD)
  from login_seq_wrong [OF user(1) user(3) _ w4, of sid store] user(2) len obtain DB4 where
    4: "login_seq N sid email (butlast tries) DB store = (replicate 4 (JsonError 401 ''invalid''), DB4, store)"
       "users DB4 email = Some (user\<lparr>failedLogins := 4\<rparr>)"
    by auto
  have "(t, pw) \<in> set tries" using ne l by (metis last_in_set)
  with wrong have w5: "\<not> verifyPassword N pw (passwordHash (user\<lparr>failedLogins := 4\<rparr>))"
    by auto
  have l4: "lockUntil (user\<lparr>failedLogins := 4\<rparr>) = None" using user(3) by simp
  note s5 = login_wrong [OF 4(2) l4 w5, of t sid store]
  have "login_seq N sid email tries DB store
          = login_seq N sid email (butlast tries @ [(t, pw)]) DB store"
    using split by simp
  also have "\<dots> = (replicate 4 (JsonError 401 ''invalid'') @ [JsonError 401 ''invalid''],
                    fst (snd (login N t sid email pw DB4 store)), store)"
    unfolding login_seq_append using 4(1) s5 by simp
  finally have seq: "login_seq N sid email tries DB store
          = (replicate 5 (JsonError 401 ''invalid''),
             fst (snd (login N t sid email pw DB4 store)), store)"
    by (simp add: numeral_eq_Suc)
  have "users (fst (snd (login N t sid email pw DB4 store))) email
          = Some (user\<lparr>failedLogins := 5, lockUntil := Some (t + 15 * 60 * 1000)\<rparr>)"
    unfolding s5 by (simp add: logEvent_def)
  with seq l show ?thesis by simp
qed


text \<open>
  C10. Starting from an account whose failed-login counter is 0 and that carries no lock
  (the state after signup or after a successful login), five login attempts in a row with
  a wrong password are each answered 401, and the fifth sets the lock to 15 minutes after
  its clock reading. From then on every login attempt made before the lock's instant is
  answered 423 \<^verbatim>\<open>account locked\<close> whatever the password (the password is not looked
  at), and changes nothing but the log. A login with the right password on an account that
  is not locked sets the counter to 0 and removes the lock.
\<close>

theorem login_lockout_after_five_failures:
  assumes user: "users DB email = Some user" "failedLogins user = 0" "lockUntil user = None"
      and five: "length tries = 5"
      and wrong: "\<forall>(t, pw) \<in> set tries. \<not> verifyPassword N pw (passwordHash user)"
      and clock: "0 \<le> fst (last tries)"
  shows "\<exists>DB5. login_seq N sid email tries DB store
                 = (replicate 5 (JsonError 401 ''invalid''), DB5, store)
          \<and> users DB5 email = Some (user\<lparr>failedLogins := 5,
                                          lockUntil := Some (fst (last tries) + 15 * 60 * 1000)\<rparr>)
          \<and> (\<forall>t pw sid' store'. t < fst (last tries) + 15 * 60 * 1000 \<longrightarrow>
                login N t sid' email pw DB5 store' =
                  (JsonError 423 ''account locked'',
                   logEvent t DB5 [(''event'', LS ''login_locked''), (''email'', LS email)],
                   store', None))
          \<and> (\<forall>DBx ux t pw sid' store'.
                users DBx email = Some ux \<and> \<not> locked_at t ux
                  \<and> verifyPassword N pw (passwordHash ux) \<longrightarrow>
                users (fst (snd (login N t sid' email pw DBx store'))) email
                  = Some (ux\<lparr>failedLogins := 0, lockUntil := None\<rparr>))"
proof -
  from five_failures_lock [OF user five wrong, of sid store] obtain DB5 where
    5: "login_seq N sid email tries DB store = (replicate 5 (JsonError 401 ''invalid''), DB5, store)"
       "users DB5 email = Some (user\<lparr>failedLogins := 5,
                                     lockUntil := Some (fst (last tries) + 15 * 60 * 1000)\<rparr>)"
    by blast
  have nz: "fst (last tries) + 15 * 60 * 1000 \<noteq> 0" using clock by simp
  have lk: "\<forall>t pw sid' store'. t < fst (last tries) + 15 * 60 * 1000 \<longrightarrow>
                login N t sid' email pw DB5 store' =
                  (JsonError 423 ''account locked'',
                   logEvent t DB5 [(''event'', LS ''login_locked''), (''email'', LS email)],
                   store', None)"
    using login_locked [OF 5(2) _ nz] by simp
  have rs: "\<forall>DBx ux t pw sid' store'.
                users DBx email = Some ux \<and> \<not> locked_at t ux
                  \<and> verifyPassword N pw (passwordHash ux) \<longrightarrow>
                users (fst (snd (login N t sid' email pw DBx store'))) email
                  = Some (ux\<lparr>failedLogins := 0, lockUntil := None\<rparr>)"
    using login_right_resets by blast
  from 5 lk rs show ?thesis by blast
qed

theorem login_lockout_witness:
  "fst (login_seq demo_node ''s'' ''alice'' demo_tries demo_db Map.empty)
     = replicate 5 (JsonError 401 ''invalid'')
   \<and> fst (login demo_node 900004 ''s'' ''alice'' ''pw-alice''
            (fst (snd (login_seq demo_node ''s'' ''alice'' demo_tries demo_db Map.empty))) Map.empty)
     = JsonError 423 ''account locked''
   \<and> users (fst (snd (login demo_node 1 ''s'' ''alice'' ''pw-alice'' demo_db Map.empty))) ''alice''
     = Some ((demo_user ''alice'' ''Author'')\<lparr>failedLogins := 0, lockUntil := None\<rparr>)"
proof -
  have u: "users demo_db ''alice'' = Some (demo_user ''alice'' ''Author'')"
    by (simp add: demo_db_def)
  have f: "failedLogins (demo_user ''alice'' ''Author'') = 0"
    and l: "lockUntil (demo_user ''alice'' ''Author'') = None"
    by (simp_all add: demo_user_def)
  have n: "length demo_tries = 5" by (simp add: demo_tries_def)
  have w: "\<forall>(t, pw) \<in> set demo_tries.
             \<not> verifyPassword demo_node pw (passwordHash (demo_user ''alice'' ''Author''))"
    by (simp add: demo_tries_def verifyPassword_def demo_node_def demo_user_def)
  have c: "0 \<le> fst (last demo_tries)" by (simp add: demo_tries_def)
  have la: "fst (last demo_tries) = 5" by (simp add: demo_tries_def)
  have ok: "\<not> locked_at 1 (demo_user ''alice'' ''Author'')
            \<and> verifyPassword demo_node ''pw-alice'' (passwordHash (demo_user ''alice'' ''Author''))"
    by (simp add: locked_at_def verifyPassword_def demo_node_def demo_user_def)
  from login_lockout_after_five_failures [OF u f l n w c, of "''s''" Map.empty]
  obtain DB5 where
    5: "login_seq demo_node ''s'' ''alice'' demo_tries demo_db Map.empty
          = (replicate 5 (JsonError 401 ''invalid''), DB5, Map.empty)"
       "\<forall>t pw sid' store'. t < fst (last demo_tries) + 15 * 60 * 1000 \<longrightarrow>
                login demo_node t sid' ''alice'' pw DB5 store' =
                  (JsonError 423 ''account locked'',
                   logEvent t DB5 [(''event'', LS ''login_locked''), (''email'', LS ''alice'')],
                   store', None)"
       "\<forall>DBx ux t pw sid' store'.
                users DBx ''alice'' = Some ux \<and> \<not> locked_at t ux
                  \<and> verifyPassword demo_node pw (passwordHash ux) \<longrightarrow>
                users (fst (snd (login demo_node t sid' ''alice'' pw DBx store'))) ''alice''
                  = Some (ux\<lparr>failedLogins := 0, lockUntil := None\<rparr>)"
    by blast
  have "(900004::int) < fst (last demo_tries) + 15 * 60 * 1000" unfolding la by simp
  with 5(2) have "login demo_node 900004 ''s'' ''alice'' ''pw-alice'' DB5 Map.empty =
                  (JsonError 423 ''account locked'',
                   logEvent 900004 DB5 [(''event'', LS ''login_locked''), (''email'', LS ''alice'')],
                   Map.empty, None)" by blast
  moreover from 5(3) u ok
  have "users (fst (snd (login demo_node 1 ''s'' ''alice'' ''pw-alice'' demo_db Map.empty))) ''alice''
     = Some ((demo_user ''alice'' ''Author'')\<lparr>failedLogins := 0, lockUntil := None\<rparr>)"
    by blast
  ultimately show ?thesis using 5(1) by simp
qed


section \<open>Properties of the one-time passcodes\<close>


lemma verify_otp_ok:
  assumes "otps DB email = Some r" "\<not> used r" "now \<le> expires r" "code = otp r"
  shows "\<exists>DB' r'. verify_otp now email code DB B = (JsonOk, DB', B)
           \<and> otps DB' email = Some r' \<and> used r'"
  using assms by (simp add: verify_otp_def logEvent_def)






text \<open>An inherited name instead of a registered address: the answer is never ok, the file
  gets log entries only, and the fifth mismatch marks the built-in object used.\<close>

lemma verify_otp_inherited:
  assumes "otps DB email = None" "inherited_name email"
  shows "fst (verify_otp now email code DB B) \<in> {JsonError 400 ''otp used'', JsonError 400 ''invalid''}
       \<and> otps (fst (snd (verify_otp now email code DB B))) = otps DB"
  using assms by (simp add: verify_otp_def Let_def logEvent_def)

lemma verify_otp_unknown:
  assumes "otps DB email = None" "\<not> inherited_name email"
  shows "verify_otp now email code DB B = (JsonError 400 ''no otp'', DB, B)"
  using assms by (simp add: verify_otp_def)
















section \<open>Integrity on reading and the round trip\<close>

lemma get_paper_plain_authenticated:
  assumes "get_paper N now sid user pid DB store = (JsonPaper i t m content h, DB', store')"
  shows "\<exists>paper encKey priv aesKey plain.
           papers DB pid = Some paper \<and> versions paper \<noteq> []
         \<and> encryptedKeys paper (s_email user) = Some encKey
         \<and> rsaDecrypt N priv encKey = Some aesKey
         \<and> aesDecrypt N (v_enc (last (versions paper))) aesKey = Some plain
         \<and> content = ns_to_base64 N plain"
  using assms
  by (auto simp: get_paper_def open_payload_def Let_def
           split: option.splits if_splits completion.splits bool.splits prod.splits opened.splits)

lemma get_paper_tag_failure:
  assumes "papers DB pid = Some paper" "versions paper \<noteq> []"
      and "s_email user \<in> set (owner paper # collaborators paper @ reviewers paper)"
      and "checkAccess (s_role user) ''Paper'' ''read'' = Normal True"
      and "encryptedKeys paper (s_email user) = Some encKey" "encKey \<noteq> []"
      and "store sid = Some \<lparr>privateKeyPem = priv, expiresAt = exp\<rparr>" "now \<le> exp" "priv \<noteq> []"
      and "rsaDecrypt N priv encKey = Some aesKey"
      and "aesDecrypt N (v_enc (last (versions paper))) aesKey = None"
  shows "fst (get_paper N now sid user pid DB store) = JsonError 500 ''decrypt''"
  using assms
  by (auto simp: get_paper_def open_payload_def getPrivateKeyForSession_def Let_def)

lemma decryptFile_result:
  assumes "decryptFile V pkg path = Some dp"
  shows "\<exists>aesKey. decryptKeyWithRSA V (nv_from_base64 V (encryptedKey pkg)) path = Some aesKey
          \<and> decryptAES V (nv_from_base64 V (encryptedData pkg)) aesKey (nv_from_base64 V (pkg_iv pkg))
               = Some (pkg_data dp)
          \<and> hashVerified dp = (hashSHA256 V (pkg_data dp) = pkg_hash pkg)"
  using assms by (auto simp: decryptFile_def Let_def split: option.splits)

lemma decryptFile_returns_unverified:
  assumes "decryptKeyWithRSA V (nv_from_base64 V (encryptedKey pkg)) path = Some aesKey"
      and "decryptAES V (nv_from_base64 V (encryptedData pkg)) aesKey (nv_from_base64 V (pkg_iv pkg)) = Some d"
  shows "decryptFile V pkg path =
           Some \<lparr>pkg_data = d, hashVerified = (hashSHA256 V d = pkg_hash pkg),
                 originalHash = pkg_hash pkg, calculatedHash = hashSHA256 V d\<rparr>"
  using assms by (simp add: decryptFile_def Let_def)

lemma downloadPaper_file:
  assumes "downloadPaper V path coll pid = SFile name content"
  shows "\<exists>paper dp. coll pid = Some paper
          \<and> decryptFile V \<lparr>encryptedData = pd_encryptedData paper, pkg_iv = pd_encryptedIV paper,
                            encryptedKey = pd_encryptedAESKey paper, pkg_hash = pd_fileHash paper\<rparr> path = Some dp
          \<and> hashVerified dp \<and> content = pkg_data dp \<and> hashSHA256 V content = pd_fileHash paper"
  using assms
  by (auto simp: downloadPaper_def Let_def decryptFile_def split: option.splits if_splits)

lemma service_round_trip:
  assumes keys: "keyfiles_ok V pubPath privPath"
      and prim: "cbc_ok V" "svc_base64_ok V"
      and len: "length aesKey = 32" "length iv = 16"
  shows "\<exists>pkg. encryptFile V aesKey iv seed fileBuffer pubPath = Some pkg
           \<and> decryptFile V pkg privPath =
               Some \<lparr>pkg_data = fileBuffer, hashVerified = True,
                     originalHash = hashSHA256 V fileBuffer,
                     calculatedHash = hashSHA256 V fileBuffer\<rparr>"
proof -
  from keys obtain pub priv where
    k: "nv_readFileSync V pubPath = Some pub" "nv_readFileSync V privPath = Some priv"
       "\<forall>seed m. length m = 32 \<longrightarrow>
          (\<exists>c. nv_publicEncrypt V seed pub m = Some c \<and> nv_privateDecrypt V priv c = Some m)"
    unfolding keyfiles_ok_def by blast
  from k(3) len(1) obtain c where
    c: "nv_publicEncrypt V seed pub aesKey = Some c" "nv_privateDecrypt V priv c = Some aesKey"
    by blast
  let ?pkg = "\<lparr>encryptedData = nv_to_base64 V (nv_cbc_encrypt V aesKey iv fileBuffer),
               pkg_iv = nv_to_base64 V iv, encryptedKey = nv_to_base64 V c,
               pkg_hash = hashSHA256 V fileBuffer\<rparr>"
  have e: "encryptFile V aesKey iv seed fileBuffer pubPath = Some ?pkg"
    by (simp add: encryptFile_def encryptKeyWithRSA_def encryptAES_def k(1) c(1))
  from prim(1) len have d: "nv_cbc_decrypt V aesKey iv (nv_cbc_encrypt V aesKey iv fileBuffer) = Some fileBuffer"
    unfolding cbc_ok_def by blast
  from prim(2) have b: "\<And>x. nv_from_base64 V (nv_to_base64 V x) = x"
    unfolding svc_base64_ok_def by blast
  have "decryptFile V ?pkg privPath =
               Some \<lparr>pkg_data = fileBuffer, hashVerified = True,
                     originalHash = hashSHA256 V fileBuffer,
                     calculatedHash = hashSHA256 V fileBuffer\<rparr>"
    by (simp add: decryptFile_def decryptKeyWithRSA_def decryptAES_def Let_def b k(2) c(2) d)
  with e show ?thesis by blast
qed


lemma demo_gcm_ok: "gcm_ok demo_node"
  by (simp add: gcm_ok_def demo_node_def)

lemma demo_base64_ok: "base64_ok demo_node"
  by (simp add: base64_ok_def demo_node_def)

lemma demo_keypair_ok: "keypair_ok demo_node k k"
  by (auto simp: keypair_ok_def demo_node_def)

lemma demo_cbc_ok: "cbc_ok demo_service"
  by (simp add: cbc_ok_def demo_service_def)

lemma demo_svc_base64_ok: "svc_base64_ok demo_service"
  by (simp add: svc_base64_ok_def demo_service_def)

lemma demo_keyfiles_ok: "keyfiles_ok demo_service ''public.pem'' ''private.pem''"
  by (auto simp: keyfiles_ok_def demo_service_def)

lemma demo_key_length: "length demo_key = 32" "length demo_iv = 12" "length demo_iv16 = 16"
  by (simp_all add: demo_key_def demo_iv_def demo_iv16_def)

lemma demo_encryptFile:
  "encryptFile demo_service demo_key demo_iv16 ''s'' ''hello'' ''public.pem'' = Some demo_package"
  by (simp add: encryptFile_def encryptAES_def encryptKeyWithRSA_def hashSHA256_def
        demo_service_def demo_package_def)

text \<open>
  C2. Sealing followed by opening is the identity on the plaintext. For the server's
  functions: whatever the plaintext, wrapping the AES key for the public key returns a
  value that the private key unwraps to that key (when the OAEP primitive does not raise),
  and decrypting under it returns the plaintext that was encrypted. For the server's handlers: after a
  paper has been sealed (the POST was accepted) with a fresh 32-byte key and 12-byte nonce,
  any listed recipient who was a registered user with a public key at that moment, whose
  session holds the matching private key, and who reads the paper gets back the Base64
  encoding of exactly the bytes that were sealed, together with their hash. In
  cryptoService: with a 32-byte key, a 16-byte IV and matching key files,
  \<^verbatim>\<open>encryptFile\<close> returns a package, and \<^verbatim>\<open>decryptFile\<close> on that package returns
  the file's bytes with \<^verbatim>\<open>hashVerified\<close> true. Both assume that the primitives decrypt
  what they encrypted.
\<close>

theorem seal_then_open_round_trip:
  "(gcm_ok N \<and> base64_ok N \<and> length key = 32 \<and> length nonce = 12
      \<and> keypair_ok N pub priv' \<and> ns_publicEncrypt N seed' pub key \<noteq> None
    \<longrightarrow> (\<exists>wrapped. rsaEncrypt N seed' pub key = Some wrapped
           \<and> rsaDecrypt N priv' wrapped = Some key)
        \<and> aesDecrypt N (aesEncrypt N nonce P key) key = Some P)
 \<and> (post_papers N t0 E author body DB = (JsonOkId pid, DB1)
      \<and> length (e_aesKey E) = 32 \<and> length (e_iv E) = 12 \<and> gcm_ok N \<and> base64_ok N
      \<and> s_email reader \<in> set (s_email author # q_collaborators body @ q_reviewers body)
      \<and> users DB (s_email reader) = Some u \<and> rsaPublicKey u \<noteq> []
      \<and> keypair_ok N (rsaPublicKey u) priv
      \<and> (s_role reader = ''Author'' \<or> s_role reader = ''Collaborator''
            \<or> s_role reader = ''Reviewer'')
      \<and> store sid = Some \<lparr>privateKeyPem = priv, expiresAt = exp\<rparr> \<and> now \<le> exp \<and> priv \<noteq> []
    \<longrightarrow> fst (get_paper N now sid reader pid DB1 store) =
          JsonPaper pid (q_title body) (q_metadata body)
            (ns_to_base64 N (ns_from_base64 N (q_fileBase64 body)))
            (sha256 N (ns_from_base64 N (q_fileBase64 body)))
        \<and> ns_from_base64 N (ns_to_base64 N (ns_from_base64 N (q_fileBase64 body)))
            = ns_from_base64 N (q_fileBase64 body))
 \<and> (keyfiles_ok V publicKeyPath privateKeyPath \<and> cbc_ok V \<and> svc_base64_ok V
      \<and> length aesKey = 32 \<and> length iv = 16
    \<longrightarrow> (\<exists>pkg. encryptFile V aesKey iv seed fileBuffer publicKeyPath = Some pkg
           \<and> decryptFile V pkg privateKeyPath =
               Some \<lparr>pkg_data = fileBuffer, hashVerified = True,
                     originalHash = hashSHA256 V fileBuffer,
                     calculatedHash = hashSHA256 V fileBuffer\<rparr>))"
proof (intro conjI impI)
  assume f: "gcm_ok N \<and> base64_ok N \<and> length key = 32 \<and> length nonce = 12
      \<and> keypair_ok N pub priv' \<and> ns_publicEncrypt N seed' pub key \<noteq> None"
  then obtain wrapped where w: "rsaEncrypt N seed' pub key = Some wrapped"
    by (auto simp: rsaEncrypt_def)
  from f w rsa_round_trip [of N pub priv' key seed' wrapped]
  show "\<exists>wrapped. rsaEncrypt N seed' pub key = Some wrapped
           \<and> rsaDecrypt N priv' wrapped = Some key" by blast
  from f aes_round_trip [of N key nonce P]
  show "aesDecrypt N (aesEncrypt N nonce P key) key = Some P" by blast
next
  assume a: "post_papers N t0 E author body DB = (JsonOkId pid, DB1)
      \<and> length (e_aesKey E) = 32 \<and> length (e_iv E) = 12 \<and> gcm_ok N \<and> base64_ok N
      \<and> s_email reader \<in> set (s_email author # q_collaborators body @ q_reviewers body)
      \<and> users DB (s_email reader) = Some u \<and> rsaPublicKey u \<noteq> []
      \<and> keypair_ok N (rsaPublicKey u) priv
      \<and> (s_role reader = ''Author'' \<or> s_role reader = ''Collaborator''
            \<or> s_role reader = ''Reviewer'')
      \<and> store sid = Some \<lparr>privateKeyPem = priv, expiresAt = exp\<rparr> \<and> now \<le> exp \<and> priv \<noteq> []"
  then have "get_paper N now sid reader pid DB1 store =
           (JsonPaper pid (q_title body) (q_metadata body)
              (ns_to_base64 N (ns_from_base64 N (q_fileBase64 body)))
              (sha256 N (ns_from_base64 N (q_fileBase64 body))),
            logEvent now DB1 [(''event'', LS ''paper_decrypted''), (''pid'', LS pid),
                              (''by'', LS (s_email reader))],
            store)"
    by (intro server_round_trip [where E = E and u = u and priv = priv]) blast+
  then show "fst (get_paper N now sid reader pid DB1 store) =
          JsonPaper pid (q_title body) (q_metadata body)
            (ns_to_base64 N (ns_from_base64 N (q_fileBase64 body)))
            (sha256 N (ns_from_base64 N (q_fileBase64 body)))"
    by simp
  from a show "ns_from_base64 N (ns_to_base64 N (ns_from_base64 N (q_fileBase64 body)))
            = ns_from_base64 N (q_fileBase64 body)"
    by (simp add: base64_ok_def)
next
  assume "keyfiles_ok V publicKeyPath privateKeyPath \<and> cbc_ok V \<and> svc_base64_ok V
      \<and> length aesKey = 32 \<and> length iv = 16"
  then show "\<exists>pkg. encryptFile V aesKey iv seed fileBuffer publicKeyPath = Some pkg
           \<and> decryptFile V pkg privateKeyPath =
               Some \<lparr>pkg_data = fileBuffer, hashVerified = True,
                     originalHash = hashSHA256 V fileBuffer,
                     calculatedHash = hashSHA256 V fileBuffer\<rparr>"
    by (intro service_round_trip) blast+
qed

theorem seal_then_open_witness:
  "aesDecrypt demo_node (aesEncrypt demo_node demo_iv [] demo_key) demo_key = Some []
   \<and> Option.bind (rsaEncrypt demo_node ''s'' ''key-bob'' demo_key)
         (rsaDecrypt demo_node ''key-bob'') = Some demo_key
   \<and> fst (get_paper demo_node 9 ''sb'' (demo_session ''bob'' ''Collaborator'') ''p1''
          demo_sealed demo_store) = JsonPaper ''p1'' ''T'' ''M'' ''hello'' ''hello''
   \<and> map_option pkg_data
         (Option.bind (encryptFile demo_service demo_key demo_iv16 ''s'' ''hello'' ''public.pem'')
            (\<lambda>pkg. decryptFile demo_service pkg ''private.pem'')) = Some ''hello''"
proof -
  have u: "users demo_db ''bob'' = Some (demo_user ''bob'' ''Collaborator'')"
    by (simp add: demo_db_def)
  have h1: "post_papers demo_node 0 (demo_entropy ''p1'') (demo_session ''alice'' ''Author'')
              (demo_body [''bob''] [''carol'']) demo_db = (JsonOkId ''p1'', demo_sealed)
      \<and> length (e_aesKey (demo_entropy ''p1'')) = 32 \<and> length (e_iv (demo_entropy ''p1'')) = 12
      \<and> gcm_ok demo_node \<and> base64_ok demo_node
      \<and> s_email (demo_session ''bob'' ''Collaborator'')
           \<in> set (s_email (demo_session ''alice'' ''Author'')
                   # q_collaborators (demo_body [''bob''] [''carol''])
                   @ q_reviewers (demo_body [''bob''] [''carol'']))
      \<and> users demo_db (s_email (demo_session ''bob'' ''Collaborator''))
           = Some (demo_user ''bob'' ''Collaborator'')
      \<and> rsaPublicKey (demo_user ''bob'' ''Collaborator'') \<noteq> []
      \<and> keypair_ok demo_node (rsaPublicKey (demo_user ''bob'' ''Collaborator'')) ''key-bob''
      \<and> (s_role (demo_session ''bob'' ''Collaborator'') = ''Author''
           \<or> s_role (demo_session ''bob'' ''Collaborator'') = ''Collaborator''
           \<or> s_role (demo_session ''bob'' ''Collaborator'') = ''Reviewer'')
      \<and> demo_store ''sb'' = Some \<lparr>privateKeyPem = ''key-bob'', expiresAt = 100\<rparr>
      \<and> (9::int) \<le> 100 \<and> ''key-bob'' \<noteq> []"
    using demo_sealed_eq demo_gcm_ok demo_base64_ok demo_keypair_ok [of "''key-bob''"] u
    by (simp add: demo_key_length demo_entropy_def demo_session_def demo_body_def
          demo_user_def demo_store_def)
  have h2: "keyfiles_ok demo_service ''public.pem'' ''private.pem'' \<and> cbc_ok demo_service
      \<and> svc_base64_ok demo_service \<and> length demo_key = 32 \<and> length demo_iv16 = 16"
    using demo_keyfiles_ok demo_cbc_ok demo_svc_base64_ok
    by (simp add: demo_key_length)
  note t = seal_then_open_round_trip
     [where N = demo_node and key = demo_key and nonce = demo_iv and pub = "''key-bob''"
        and priv' = "''key-bob''" and seed' = "''s''" and P = "[]"
        and ?t0.0 = 0 and E = "demo_entropy ''p1''" and author = "demo_session ''alice'' ''Author''"
        and body = "demo_body [''bob''] [''carol'']" and DB = demo_db and pid = "''p1''"
        and ?DB1.0 = demo_sealed and reader = "demo_session ''bob'' ''Collaborator''"
        and u = "demo_user ''bob'' ''Collaborator''" and priv = "''key-bob''"
        and store = demo_store and sid = "''sb''" and exp = 100 and now = 9
        and V = demo_service and publicKeyPath = "''public.pem''"
        and privateKeyPath = "''private.pem''" and aesKey = demo_key and iv = demo_iv16
        and seed = "''s''" and fileBuffer = "''hello''"]
  have h0: "gcm_ok demo_node \<and> base64_ok demo_node \<and> length demo_key = 32
      \<and> length demo_iv = 12 \<and> keypair_ok demo_node ''key-bob'' ''key-bob''
      \<and> ns_publicEncrypt demo_node ''s'' ''key-bob'' demo_key \<noteq> None"
    using demo_gcm_ok demo_base64_ok demo_keypair_ok [of "''key-bob''"]
    by (simp add: demo_key_length demo_node_def)
  from t h0 have 0: "aesDecrypt demo_node (aesEncrypt demo_node demo_iv [] demo_key) demo_key
                       = Some []"
    by blast
  from t h0 obtain wrapped where
    "rsaEncrypt demo_node ''s'' ''key-bob'' demo_key = Some wrapped"
    "rsaDecrypt demo_node ''key-bob'' wrapped = Some demo_key"
    by blast
  then have r: "Option.bind (rsaEncrypt demo_node ''s'' ''key-bob'' demo_key)
                  (rsaDecrypt demo_node ''key-bob'') = Some demo_key"
    by simp
  from t h1 have "fst (get_paper demo_node 9 ''sb'' (demo_session ''bob'' ''Collaborator'')
          ''p1'' demo_sealed demo_store) =
          JsonPaper ''p1'' (q_title (demo_body [''bob''] [''carol'']))
            (q_metadata (demo_body [''bob''] [''carol'']))
            (ns_to_base64 demo_node (ns_from_base64 demo_node (q_fileBase64 (demo_body [''bob''] [''carol'']))))
            (sha256 demo_node (ns_from_base64 demo_node (q_fileBase64 (demo_body [''bob''] [''carol'']))))"
    by blast
  then have 1: "fst (get_paper demo_node 9 ''sb'' (demo_session ''bob'' ''Collaborator'')
          ''p1'' demo_sealed demo_store) = JsonPaper ''p1'' ''T'' ''M'' ''hello'' ''hello''"
    by (simp add: demo_body_def demo_node_def sha256_def)
  from t h2 obtain pkg where
    "encryptFile demo_service demo_key demo_iv16 ''s'' ''hello'' ''public.pem'' = Some pkg"
    "decryptFile demo_service pkg ''private.pem'' =
          Some \<lparr>pkg_data = ''hello'', hashVerified = True,
                originalHash = hashSHA256 demo_service ''hello'',
                calculatedHash = hashSHA256 demo_service ''hello''\<rparr>"
    by blast
  with 0 r 1 show ?thesis by simp
qed


text \<open>
  C1, as the code has it. In the server decryption and integrity check are one operation
  (AES-GCM): a read answers with file content only when the authenticated decryption of the
  latest stored version, under the key unwrapped from the caller's own entry, returned
  that content without raising; and when that decryption raises, as it does on a tag that
  does not authenticate, the read is answered 500 \<^verbatim>\<open>decrypt\<close> and carries no
  plaintext. In cryptoService the cipher is AES-CBC without a tag: \<^verbatim>\<open>decryptFile\<close>
  decrypts first, then compares the SHA-256 of the result with the stored hash, and returns
  the decrypted bytes together with the flag \<^verbatim>\<open>hashVerified\<close>, whether the flag is true
  or false; its caller \<^verbatim>\<open>downloadPaper\<close> sends the bytes only when the flag is true
  and answers 400 when it is false. A request without a session user never reaches the
  reading handler: \<^verbatim>\<open>requireAuth\<close> answers it with 401.
\<close>

theorem plaintext_only_after_integrity_check:
  "(get_paper N now sid user pid DB store = (JsonPaper i t m content h, DB1, store1)
      \<longrightarrow> (\<exists>paper encKey priv aesKey plain.
             papers DB pid = Some paper \<and> versions paper \<noteq> []
           \<and> encryptedKeys paper (s_email user) = Some encKey
           \<and> rsaDecrypt N priv encKey = Some aesKey
           \<and> aesDecrypt N (v_enc (last (versions paper))) aesKey = Some plain
           \<and> content = ns_to_base64 N plain))
 \<and> (papers DB' pid' = Some paper' \<and> versions paper' \<noteq> []
      \<and> s_email user' \<in> set (owner paper' # collaborators paper' @ reviewers paper')
      \<and> checkAccess (s_role user') ''Paper'' ''read'' = Normal True
      \<and> encryptedKeys paper' (s_email user') = Some encKey' \<and> encKey' \<noteq> []
      \<and> store' sid' = Some \<lparr>privateKeyPem = priv', expiresAt = exp'\<rparr> \<and> now' \<le> exp'
      \<and> priv' \<noteq> []
      \<and> rsaDecrypt N priv' encKey' = Some aesKey'
      \<and> aesDecrypt N (v_enc (last (versions paper'))) aesKey' = None
      \<longrightarrow> fst (get_paper N now' sid' user' pid' DB' store') = JsonError 500 ''decrypt'')
 \<and> (decryptKeyWithRSA V (nv_from_base64 V (encryptedKey pkg)) privateKeyPath = Some key
      \<and> decryptAES V (nv_from_base64 V (encryptedData pkg)) key (nv_from_base64 V (pkg_iv pkg))
           = Some d
      \<longrightarrow> decryptFile V pkg privateKeyPath =
            Some \<lparr>pkg_data = d, hashVerified = (hashSHA256 V d = pkg_hash pkg),
                  originalHash = pkg_hash pkg, calculatedHash = hashSHA256 V d\<rparr>)
 \<and> (downloadPaper V privateKeyPath paperColl paperId = SFile name sent
      \<longrightarrow> (\<exists>doc dp. paperColl paperId = Some doc
             \<and> decryptFile V \<lparr>encryptedData = pd_encryptedData doc, pkg_iv = pd_encryptedIV doc,
                               encryptedKey = pd_encryptedAESKey doc,
                               pkg_hash = pd_fileHash doc\<rparr> privateKeyPath = Some dp
             \<and> hashVerified dp \<and> sent = pkg_data dp
             \<and> hashSHA256 V sent = pd_fileHash doc))
 \<and> (paperColl' paperId' = Some doc'
      \<and> decryptFile V \<lparr>encryptedData = pd_encryptedData doc', pkg_iv = pd_encryptedIV doc',
                        encryptedKey = pd_encryptedAESKey doc',
                        pkg_hash = pd_fileHash doc'\<rparr> privateKeyPath = Some dp'
      \<and> \<not> hashVerified dp'
      \<longrightarrow> downloadPaper V privateKeyPath paperColl' paperId'
            = SError 400 ''File integrity check failed. File may be corrupted.'')
 \<and> (case requireAuth t0 path sess DB0 of
       None \<Rightarrow> sess \<noteq> None
     | Some (r, DBx) \<Rightarrow> sess = None \<and> r = JsonError 401 ''auth required'')"
proof (intro conjI impI)
  assume "get_paper N now sid user pid DB store = (JsonPaper i t m content h, DB1, store1)"
  then show "\<exists>paper encKey priv aesKey plain.
             papers DB pid = Some paper \<and> versions paper \<noteq> []
           \<and> encryptedKeys paper (s_email user) = Some encKey
           \<and> rsaDecrypt N priv encKey = Some aesKey
           \<and> aesDecrypt N (v_enc (last (versions paper))) aesKey = Some plain
           \<and> content = ns_to_base64 N plain"
    by (rule get_paper_plain_authenticated)
next
  assume "papers DB' pid' = Some paper' \<and> versions paper' \<noteq> []
      \<and> s_email user' \<in> set (owner paper' # collaborators paper' @ reviewers paper')
      \<and> checkAccess (s_role user') ''Paper'' ''read'' = Normal True
      \<and> encryptedKeys paper' (s_email user') = Some encKey' \<and> encKey' \<noteq> []
      \<and> store' sid' = Some \<lparr>privateKeyPem = priv', expiresAt = exp'\<rparr> \<and> now' \<le> exp'
      \<and> priv' \<noteq> []
      \<and> rsaDecrypt N priv' encKey' = Some aesKey'
      \<and> aesDecrypt N (v_enc (last (versions paper'))) aesKey' = None"
  then show "fst (get_paper N now' sid' user' pid' DB' store') = JsonError 500 ''decrypt''"
    by (intro get_paper_tag_failure [where paper = paper' and encKey = encKey' and priv = priv'
          and exp = exp' and aesKey = aesKey']) blast+
next
  assume "decryptKeyWithRSA V (nv_from_base64 V (encryptedKey pkg)) privateKeyPath = Some key
      \<and> decryptAES V (nv_from_base64 V (encryptedData pkg)) key (nv_from_base64 V (pkg_iv pkg))
           = Some d"
  then show "decryptFile V pkg privateKeyPath =
            Some \<lparr>pkg_data = d, hashVerified = (hashSHA256 V d = pkg_hash pkg),
                  originalHash = pkg_hash pkg, calculatedHash = hashSHA256 V d\<rparr>"
    by (intro decryptFile_returns_unverified) blast+
next
  assume "downloadPaper V privateKeyPath paperColl paperId = SFile name sent"
  then show "\<exists>doc dp. paperColl paperId = Some doc
             \<and> decryptFile V \<lparr>encryptedData = pd_encryptedData doc, pkg_iv = pd_encryptedIV doc,
                               encryptedKey = pd_encryptedAESKey doc,
                               pkg_hash = pd_fileHash doc\<rparr> privateKeyPath = Some dp
             \<and> hashVerified dp \<and> sent = pkg_data dp
             \<and> hashSHA256 V sent = pd_fileHash doc"
    by (rule downloadPaper_file)
next
  assume "paperColl' paperId' = Some doc'
      \<and> decryptFile V \<lparr>encryptedData = pd_encryptedData doc', pkg_iv = pd_encryptedIV doc',
                        encryptedKey = pd_encryptedAESKey doc',
                        pkg_hash = pd_fileHash doc'\<rparr> privateKeyPath = Some dp'
      \<and> \<not> hashVerified dp'"
  then show "downloadPaper V privateKeyPath paperColl' paperId'
            = SError 400 ''File integrity check failed. File may be corrupted.''"
    by (simp add: downloadPaper_def)
next
  show "case requireAuth t0 path sess DB0 of
       None \<Rightarrow> sess \<noteq> None
     | Some (r, DBx) \<Rightarrow> sess = None \<and> r = JsonError 401 ''auth required''"
    by (simp add: requireAuth_def split: option.splits)
qed

text \<open>The claim as stated fails for \<^verbatim>\<open>decryptFile\<close>: on a package whose data no longer
  matches its hash it returns the decrypted bytes, flagged \<^verbatim>\<open>hashVerified: false\<close>.\<close>

theorem decryptFile_returns_unverified_plaintext:
  "decryptFile demo_service (demo_package\<lparr>encryptedData := ''jello''\<rparr>) ''private.pem''
     = Some \<lparr>pkg_data = ''jello'', hashVerified = False, originalHash = ''hello'',
             calculatedHash = ''jello''\<rparr>"
  by (simp add: decryptFile_def decryptKeyWithRSA_def decryptAES_def hashSHA256_def
        demo_service_def demo_package_def Let_def)


lemma demo_bob_reads:
  "get_paper demo_node 9 ''sb'' (demo_session ''bob'' ''Collaborator'') ''p1''
      demo_sealed demo_store
   = (JsonPaper ''p1'' ''T'' ''M'' ''hello'' ''hello'',
      logEvent 9 demo_sealed [(''event'', LS ''paper_decrypted''), (''pid'', LS ''p1''),
                              (''by'', LS ''bob'')],
      demo_store)"
proof -
  have u: "users demo_db (s_email (demo_session ''bob'' ''Collaborator''))
             = Some (demo_user ''bob'' ''Collaborator'')"
    by (simp add: demo_db_def demo_session_def)
  have k: "keypair_ok demo_node (rsaPublicKey (demo_user ''bob'' ''Collaborator'')) ''key-bob''"
    using demo_keypair_ok [of "''key-bob''"] by (simp add: demo_user_def)
  have "get_paper demo_node 9 ''sb'' (demo_session ''bob'' ''Collaborator'') ''p1''
          demo_sealed demo_store
        = (JsonPaper ''p1'' (q_title (demo_body [''bob''] [''carol'']))
             (q_metadata (demo_body [''bob''] [''carol'']))
             (ns_to_base64 demo_node (ns_from_base64 demo_node
                (q_fileBase64 (demo_body [''bob''] [''carol'']))))
             (sha256 demo_node (ns_from_base64 demo_node
                (q_fileBase64 (demo_body [''bob''] [''carol'']))))  ,
           logEvent 9 demo_sealed [(''event'', LS ''paper_decrypted''), (''pid'', LS ''p1''),
                              (''by'', LS (s_email (demo_session ''bob'' ''Collaborator'')))],
           demo_store)"
    by (rule server_round_trip [OF demo_sealed_eq _ _ demo_gcm_ok demo_base64_ok _ u _ k,
              where exp = 100])
       (simp_all add: demo_key_length demo_entropy_def demo_session_def demo_body_def
          demo_user_def demo_store_def)
  then show ?thesis by (simp add: demo_body_def demo_node_def sha256_def demo_session_def)
qed

theorem plaintext_only_after_integrity_check_witness:
  "fst (get_paper demo_node 9 ''sb'' (demo_session ''bob'' ''Collaborator'') ''p1''
          demo_tampered demo_store) = JsonError 500 ''decrypt''
   \<and> decryptFile demo_service (demo_package\<lparr>encryptedData := ''jello''\<rparr>) ''private.pem''
       = Some \<lparr>pkg_data = ''jello'', hashVerified = False, originalHash = ''hello'',
               calculatedHash = ''jello''\<rparr>
   \<and> downloadPaper demo_service ''private.pem'' [''d1'' \<mapsto> demo_paper_doc] ''d1''
       = SFile ''f.pdf'' ''hello''
   \<and> hashSHA256 demo_service ''hello'' = pd_fileHash demo_paper_doc
   \<and> downloadPaper demo_service ''private.pem''
        [''d1'' \<mapsto> demo_paper_doc\<lparr>pd_encryptedData := ''jello''\<rparr>] ''d1''
       = SError 400 ''File integrity check failed. File may be corrupted.''"
proof -
  note t = plaintext_only_after_integrity_check
    [where N = demo_node and now = 9 and sid = "''sb''"
       and user = "demo_session ''bob'' ''Collaborator''" and pid = "''p1''"
       and DB = demo_sealed and store = demo_store
       and i = "''p1''" and t = "''T''" and m = "''M''" and content = "''hello''"
       and h = "''hello''"
       and ?DB1.0 = "logEvent 9 demo_sealed [(''event'', LS ''paper_decrypted''),
                      (''pid'', LS ''p1''), (''by'', LS ''bob'')]"
       and ?store1.0 = demo_store
       and DB' = demo_tampered and pid' = "''p1''" and paper' = demo_tampered_paper
       and user' = "demo_session ''bob'' ''Collaborator''"
       and encKey' = "''key-bob|'' @ demo_key" and store' = demo_store and sid' = "''sb''"
       and priv' = "''key-bob''" and exp' = 100 and now' = 9 and aesKey' = demo_key
       and V = demo_service and pkg = "demo_package\<lparr>encryptedData := ''jello''\<rparr>"
       and privateKeyPath = "''private.pem''" and key = demo_key and d = "''jello''"
       and paperColl = "[''d1'' \<mapsto> demo_paper_doc]" and paperId = "''d1''"
       and name = "''f.pdf''" and sent = "''hello''"
       and paperColl' = "[''d1'' \<mapsto> demo_paper_doc\<lparr>pd_encryptedData := ''jello''\<rparr>]"
       and paperId' = "''d1''" and doc' = "demo_paper_doc\<lparr>pd_encryptedData := ''jello''\<rparr>"
       and dp' = "\<lparr>pkg_data = ''jello'', hashVerified = False, originalHash = ''hello'',
                    calculatedHash = ''jello''\<rparr>"]
  have h5: "[''d1'' \<mapsto> demo_paper_doc\<lparr>pd_encryptedData := ''jello''\<rparr>] ''d1''
              = Some (demo_paper_doc\<lparr>pd_encryptedData := ''jello''\<rparr>)
      \<and> decryptFile demo_service
           \<lparr>encryptedData = pd_encryptedData (demo_paper_doc\<lparr>pd_encryptedData := ''jello''\<rparr>),
            pkg_iv = pd_encryptedIV (demo_paper_doc\<lparr>pd_encryptedData := ''jello''\<rparr>),
            encryptedKey = pd_encryptedAESKey (demo_paper_doc\<lparr>pd_encryptedData := ''jello''\<rparr>),
            pkg_hash = pd_fileHash (demo_paper_doc\<lparr>pd_encryptedData := ''jello''\<rparr>)\<rparr>
           ''private.pem''
          = Some \<lparr>pkg_data = ''jello'', hashVerified = False, originalHash = ''hello'',
                  calculatedHash = ''jello''\<rparr>
      \<and> \<not> hashVerified \<lparr>pkg_data = ''jello'', hashVerified = False, originalHash = ''hello'',
                          calculatedHash = ''jello''\<rparr>"
    by (simp add: decryptFile_def decryptKeyWithRSA_def decryptAES_def hashSHA256_def
          demo_service_def demo_paper_doc_def Let_def)
  from t h5 have c5: "downloadPaper demo_service ''private.pem''
        [''d1'' \<mapsto> demo_paper_doc\<lparr>pd_encryptedData := ''jello''\<rparr>] ''d1''
       = SError 400 ''File integrity check failed. File may be corrupted.''"
    by blast
  have h2: "papers demo_tampered ''p1'' = Some demo_tampered_paper
      \<and> versions demo_tampered_paper \<noteq> []
      \<and> s_email (demo_session ''bob'' ''Collaborator'')
          \<in> set (owner demo_tampered_paper # collaborators demo_tampered_paper
                  @ reviewers demo_tampered_paper)
      \<and> checkAccess (s_role (demo_session ''bob'' ''Collaborator'')) ''Paper'' ''read'' = Normal True
      \<and> encryptedKeys demo_tampered_paper (s_email (demo_session ''bob'' ''Collaborator''))
          = Some (''key-bob|'' @ demo_key)
      \<and> ''key-bob|'' @ demo_key \<noteq> []
      \<and> demo_store ''sb'' = Some \<lparr>privateKeyPem = ''key-bob'', expiresAt = 100\<rparr>
      \<and> (9::int) \<le> 100 \<and> ''key-bob'' \<noteq> []
      \<and> rsaDecrypt demo_node ''key-bob'' (''key-bob|'' @ demo_key) = Some demo_key
      \<and> aesDecrypt demo_node (v_enc (last (versions demo_tampered_paper))) demo_key = None"
    using checkAccess_Paper_read [of "''Collaborator''"]
    by (simp add: demo_tampered_def demo_tampered_paper_def demo_session_def demo_store_def
          rsaDecrypt_def aesDecrypt_def demo_node_def demo_iv_def)
  have h3: "decryptKeyWithRSA demo_service
              (nv_from_base64 demo_service (encryptedKey (demo_package\<lparr>encryptedData := ''jello''\<rparr>)))
              ''private.pem'' = Some demo_key
      \<and> decryptAES demo_service
              (nv_from_base64 demo_service (encryptedData (demo_package\<lparr>encryptedData := ''jello''\<rparr>)))
              demo_key (nv_from_base64 demo_service (pkg_iv (demo_package\<lparr>encryptedData := ''jello''\<rparr>)))
           = Some ''jello''"
    by (simp add: decryptKeyWithRSA_def decryptAES_def demo_service_def demo_package_def)
  have h4: "downloadPaper demo_service ''private.pem'' [''d1'' \<mapsto> demo_paper_doc] ''d1''
              = SFile ''f.pdf'' ''hello''"
    by (simp add: downloadPaper_def decryptFile_def decryptKeyWithRSA_def decryptAES_def
          hashSHA256_def demo_service_def demo_paper_doc_def Let_def)
  from t h2 have c2: "fst (get_paper demo_node 9 ''sb'' (demo_session ''bob'' ''Collaborator'')
          ''p1'' demo_tampered demo_store) = JsonError 500 ''decrypt''"
    by blast
  from t h3 have c3: "decryptFile demo_service (demo_package\<lparr>encryptedData := ''jello''\<rparr>) ''private.pem''
       = Some \<lparr>pkg_data = ''jello'',
               hashVerified = (hashSHA256 demo_service ''jello''
                                 = pkg_hash (demo_package\<lparr>encryptedData := ''jello''\<rparr>)),
               originalHash = pkg_hash (demo_package\<lparr>encryptedData := ''jello''\<rparr>),
               calculatedHash = hashSHA256 demo_service ''jello''\<rparr>"
    by blast
  from t h4 have c4: "hashSHA256 demo_service ''hello'' = pd_fileHash demo_paper_doc"
    by force
  from t demo_bob_reads have c1: "\<exists>paper encKey priv aesKey plain.
             papers demo_sealed ''p1'' = Some paper \<and> versions paper \<noteq> []
           \<and> encryptedKeys paper (s_email (demo_session ''bob'' ''Collaborator'')) = Some encKey
           \<and> rsaDecrypt demo_node priv encKey = Some aesKey
           \<and> aesDecrypt demo_node (v_enc (last (versions paper))) aesKey = Some plain
           \<and> ''hello'' = ns_to_base64 demo_node plain"
    by blast
  from c1 c2 c3 c4 c5 h4 show ?thesis
    by (simp add: hashSHA256_def demo_service_def demo_package_def)
qed


section \<open>Properties of decisions and their signatures\<close>

lemma post_decision_ok:
  assumes "post_decision N now sid user pid text DB store = (JsonOk, DB1, store1)"
  shows "\<exists>paper priv sg.
           papers DB pid = Some paper
         \<and> fst (getPrivateKeyForSession now sid store) = Some priv
         \<and> sign N priv (ns_from_utf8 N text) = Some sg
         \<and> users DB1 = users DB
         \<and> papers DB1 = (papers DB)(pid \<mapsto> paper\<lparr>p_decision := Some
               \<lparr>d_by = s_email user, decisionText = text, d_hash = sha256 N (ns_from_utf8 N text),
                d_signature = sg, d_ts = now\<rparr>\<rparr>)"
  using assms
  by (auto simp: post_decision_def Let_def logEvent_def
           split: option.splits if_splits completion.splits bool.splits prod.splits)


lemma get_decision_papers: "papers (snd (get_decision N now user pid DB)) = papers DB"
  by (simp add: get_decision_def logEvent_def
           split: option.splits completion.splits bool.splits)



lemma service_verdict:
  assumes sg: "svc_sig_ok V pubPath privPath" and ser: "serial_ok V" and b64: "svc_base64_ok V"
      and signed: "signData V (nv_from_string V (dataToSign V p dc s t)) privPath = Some sg"
      and doc: "findById coll i = Some d" "dd_signature d = sg"
  shows "verifyDecisionSignature V pubPath coll i =
           SVerdict i (dd_paperId d = p \<and> dd_decision d = dc \<and> dd_summary d = s
                        \<and> dd_decidedAt d = t)"
proof -
  from sg obtain pub priv where
    k: "nv_readFileSync V pubPath = Some pub" "nv_readFileSync V privPath = Some priv"
       "\<forall>d s. nv_sign V priv d = Some s \<longrightarrow> (\<forall>d'. nv_verify V pub d' s = Some (d' = d))"
    unfolding svc_sig_ok_def by blast
  from signed k(2) obtain raw where
    raw: "nv_sign V priv (nv_from_string V (dataToSign V p dc s t)) = Some raw"
         "sg = nv_to_base64 V raw"
    by (auto simp: signData_def)
  from b64 raw(2) have unb: "nv_from_base64 V sg = raw" by (simp add: svc_base64_ok_def)
  from k(3) raw(1) have v: "\<And>d'. nv_verify V pub d' raw
                               = Some (d' = nv_from_string V (dataToSign V p dc s t))"
    by blast
  from ser have j1: "inj (nv_from_string V)" and j2: "inj (nv_toISOString V)"
    and j3: "\<forall>a b c d a' b' c' d'.
          nv_stringify V [(''paperId'', a), (''decision'', b), (''summary'', c), (''decidedAt'', d)]
            = nv_stringify V [(''paperId'', a'), (''decision'', b'), (''summary'', c'),
                              (''decidedAt'', d')]
          \<longrightarrow> a = a' \<and> b = b' \<and> c = c' \<and> d = d'"
    unfolding serial_ok_def by (rule conjunct1, rule conjunct1 [OF conjunct2], rule conjunct2 [OF conjunct2])
  note i1 = inj_eq [OF j1] and i2 = inj_eq [OF j2]
  have i3: "(nv_stringify V [(''paperId'', a), (''decision'', b), (''summary'', c), (''decidedAt'', d)]
            = nv_stringify V [(''paperId'', a'), (''decision'', b'), (''summary'', c'),
                              (''decidedAt'', d')])
          = (a = a' \<and> b = b' \<and> c = c' \<and> d = d')" for a b c d a' b' c' d'
  proof
    assume e: "nv_stringify V [(''paperId'', a), (''decision'', b), (''summary'', c), (''decidedAt'', d)]
            = nv_stringify V [(''paperId'', a'), (''decision'', b'), (''summary'', c'),
                              (''decidedAt'', d')]"
    show "a = a' \<and> b = b' \<and> c = c' \<and> d = d'"
      by (rule j3 [rule_format, OF e])
  next
    assume "a = a' \<and> b = b' \<and> c = c' \<and> d = d'"
    then show "nv_stringify V [(''paperId'', a), (''decision'', b), (''summary'', c), (''decidedAt'', d)]
            = nv_stringify V [(''paperId'', a'), (''decision'', b'), (''summary'', c'),
                              (''decidedAt'', d')]" by simp
  qed
  have "verifySignature V (nv_from_string V (dataToVerify V d)) (dd_signature d) pubPath
          = (dataToVerify V d = dataToSign V p dc s t)"
    by (simp add: verifySignature_def k(1) doc(2) unb v i1)
  also have "\<dots> = (dd_paperId d = p \<and> dd_decision d = dc \<and> dd_summary d = s
                        \<and> dd_decidedAt d = t)"
    by (simp add: dataToVerify_def dataToSign_def i3 i2)
  finally show ?thesis by (simp add: verifyDecisionSignature_def doc(1))
qed

lemma findOne_paperId_Some:
  "findOne_paperId coll pid = Some d \<Longrightarrow> d \<in> set coll \<and> dd_paperId d = pid"
  by (auto simp: findOne_paperId_def find_Some_iff)


lemma makeDecision_ok:
  assumes "makeDecision V privPath t_decided t_signed newId rq paperColl coll
             = (SOk 201 m, paperColl1, coll1)"
  shows "\<exists>sg paper.
           signData V (nv_from_string V (dataToSign V (rq_paperId rq) (rq_decision rq)
                                           (rq_summary rq) t_signed)) privPath = Some sg
         \<and> paperColl (rq_paperId rq) = Some paper
         \<and> coll1 =
             (case findOne_paperId coll (rq_paperId rq) of
                Some d \<Rightarrow>
                  findByIdAndUpdate coll (dd_id d)
                    (\<lambda>d. d\<lparr>dd_paperId := rq_paperId rq, dd_decision := rq_decision rq,
                            dd_summary := nv_trim V (rq_summary rq), dd_editorId := rq_userId rq,
                            dd_editorEmail := rq_userEmail rq,
                            dd_reviewsSummary := rq_reviewsSummary rq,
                            dd_averageRating := rq_averageRating rq, dd_decidedAt := t_decided,
                            dd_signature := sg,
                            dd_signatureAlgorithm := ''RSA-PSS with SHA-256''\<rparr>)
              | None \<Rightarrow>
                  coll @ [\<lparr>dd_id = newId, dd_paperId = rq_paperId rq,
                           dd_decision = rq_decision rq,
                           dd_summary = nv_trim V (rq_summary rq), dd_editorId = rq_userId rq,
                           dd_editorEmail = rq_userEmail rq,
                           dd_reviewsSummary = rq_reviewsSummary rq,
                           dd_averageRating = rq_averageRating rq, dd_decidedAt = t_decided,
                           dd_signature = sg,
                           dd_signatureAlgorithm = ''RSA-PSS with SHA-256'',
                           dd_createdAt = t_decided\<rparr>])"
  using assms
  by (auto simp: makeDecision_def Let_def split: if_splits option.splits)









lemma checkAccess_Collaborator_decide:
  "checkAccess ''Collaborator'' ''FinalDecision'' ''create'' = Normal True"
  by (simp add: acl_defs)


lemma demo_decided_eq:
  "post_decision demo_node 10 ''sb'' (demo_session ''bob'' ''Collaborator'') ''p1''
      ''accept'' demo_sealed demo_store = (JsonOk, demo_decided, demo_store)"
  by (simp add: demo_decided_def post_decision_def demo_sealed_paper demo_session_def
        checkAccess_Collaborator_decide getPrivateKeyForSession_def demo_store_def sign_def
        demo_node_def Let_def)

lemma demo_decided_paper:
  "papers demo_decided ''p1''
     = Some ((the (papers demo_sealed ''p1''))\<lparr>p_decision := Some demo_decision\<rparr>)"
  by (simp add: demo_decided_def post_decision_def demo_sealed_paper demo_session_def
        checkAccess_Collaborator_decide getPrivateKeyForSession_def demo_store_def sign_def
        sha256_def demo_node_def Let_def logEvent_def demo_decision_def)



lemma demo_coll1_eq:
  "makeDecision demo_service ''private.pem'' 1 1 ''d1'' (demo_rq ''ACCEPTED'' CHR ''a'')
     [''P'' \<mapsto> demo_paper_doc] []
   = (SOk 201 ''Decision recorded and digitally signed'',
      [''P'' \<mapsto> demo_paper_doc\<lparr>pd_status := ''ACCEPTED'', pd_finalDecision := Some ''d1''\<rparr>],
      [demo_doc1])"
  by (simp add: makeDecision_def demo_rq_def signData_def findOne_paperId_def demo_doc1_def
        demo_service_def dataToSign_def Let_def)



text \<open>A new decision read back. Beside the signature \<^verbatim>\<open>makeDecision\<close> stores the trimmed
  summary and its first reading of the clock, and it signs the summary as submitted and a
  second reading; so the signature of a new decision that nobody has touched is reported
  valid exactly when trimming leaves the summary as it is and the two readings agree.\<close>

lemma makeDecision_then_verify:
  assumes ok: "svc_sig_ok V pubPath privPath" "serial_ok V" "svc_base64_ok V"
      and md: "makeDecision V privPath t_decided t_signed newId rq paperColl coll
                 = (SOk 201 m, paperColl1, coll1)"
      and new: "findOne_paperId coll (rq_paperId rq) = None" "findById coll newId = None"
  shows "verifyDecisionSignature V pubPath coll1 newId =
           SVerdict newId (nv_trim V (rq_summary rq) = rq_summary rq \<and> t_decided = t_signed)"
proof -
  let ?d = "\<lambda>sg. \<lparr>dd_id = newId, dd_paperId = rq_paperId rq, dd_decision = rq_decision rq,
                   dd_summary = nv_trim V (rq_summary rq), dd_editorId = rq_userId rq,
                   dd_editorEmail = rq_userEmail rq, dd_reviewsSummary = rq_reviewsSummary rq,
                   dd_averageRating = rq_averageRating rq, dd_decidedAt = t_decided,
                   dd_signature = sg, dd_signatureAlgorithm = ''RSA-PSS with SHA-256'',
                   dd_createdAt = t_decided\<rparr>"
  from makeDecision_ok [OF md] new(1) obtain sg where
    s: "signData V (nv_from_string V (dataToSign V (rq_paperId rq) (rq_decision rq)
                                        (rq_summary rq) t_signed)) privPath = Some sg"
    and c: "coll1 = coll @ [?d sg]"
    by auto
  from new(2) have f: "findById coll1 newId = Some (?d sg)"
    unfolding c findById_def by (induction coll) (auto split: if_splits)
  have "dd_signature (?d sg) = sg" by simp
  from service_verdict [OF ok s f this] show ?thesis by simp
qed




section \<open>Properties of issuing a second decision\<close>

lemma find_by_id_distinct:
  "distinct (map dd_id coll) \<Longrightarrow> d0 \<in> set coll \<Longrightarrow>
   find (\<lambda>d. dd_id d = dd_id d0) coll = Some d0"
  by (induction coll) (auto simp: image_iff)

lemma find_map_id_preserving:
  "(\<And>d. dd_id (f d) = dd_id d) \<Longrightarrow>
   find (\<lambda>d. dd_id d = i) (map f coll) = map_option f (find (\<lambda>d. dd_id d = i) coll)"
  by (induction coll) auto

lemma makeDecision_overwrites:
  assumes made: "makeDecision V privPath t_decided t_signed newId rq paperColl coll
                   = (SOk 201 m, paperColl1, coll1)"
      and ex: "findOne_paperId coll (rq_paperId rq) = Some d0"
      and ids: "distinct (map dd_id coll)"
  shows "map dd_id coll1 = map dd_id coll
       \<and> (\<exists>sg. findById coll1 (dd_id d0) = Some
             (d0\<lparr>dd_paperId := rq_paperId rq, dd_decision := rq_decision rq,
                 dd_summary := nv_trim V (rq_summary rq), dd_editorId := rq_userId rq,
                 dd_editorEmail := rq_userEmail rq,
                 dd_reviewsSummary := rq_reviewsSummary rq,
                 dd_averageRating := rq_averageRating rq, dd_decidedAt := t_decided,
                 dd_signature := sg,
                 dd_signatureAlgorithm := ''RSA-PSS with SHA-256''\<rparr>))"
proof -
  from makeDecision_ok [OF made] ex obtain sg where
    c: "coll1 = findByIdAndUpdate coll (dd_id d0)
                    (\<lambda>d. d\<lparr>dd_paperId := rq_paperId rq, dd_decision := rq_decision rq,
                            dd_summary := nv_trim V (rq_summary rq), dd_editorId := rq_userId rq,
                            dd_editorEmail := rq_userEmail rq,
                            dd_reviewsSummary := rq_reviewsSummary rq,
                            dd_averageRating := rq_averageRating rq, dd_decidedAt := t_decided,
                            dd_signature := sg,
                            dd_signatureAlgorithm := ''RSA-PSS with SHA-256''\<rparr>)"
    by auto
  let ?upd = "\<lambda>d. d\<lparr>dd_paperId := rq_paperId rq, dd_decision := rq_decision rq,
                            dd_summary := nv_trim V (rq_summary rq), dd_editorId := rq_userId rq,
                            dd_editorEmail := rq_userEmail rq,
                            dd_reviewsSummary := rq_reviewsSummary rq,
                            dd_averageRating := rq_averageRating rq, dd_decidedAt := t_decided,
                            dd_signature := sg,
                            dd_signatureAlgorithm := ''RSA-PSS with SHA-256''\<rparr>"
  let ?f = "\<lambda>d. if dd_id d = dd_id d0 then ?upd d else d"
  have keep: "\<And>d. dd_id (?f d) = dd_id d" by simp
  have c': "coll1 = map ?f coll" unfolding c findByIdAndUpdate_def ..
  have ids': "map dd_id coll1 = map dd_id coll" unfolding c' by (simp add: comp_def)
  from findOne_paperId_Some [OF ex] have mem: "d0 \<in> set coll" by simp
  have "findById coll1 (dd_id d0) = map_option ?f (find (\<lambda>d. dd_id d = dd_id d0) coll)"
    unfolding findById_def c' by (rule find_map_id_preserving [OF keep])
  also have "\<dots> = Some (?upd d0)"
    by (simp add: find_by_id_distinct [OF ids mem])
  finally show ?thesis using ids' by blast
qed

lemma post_decision_replaces:
  assumes "post_decision N now sid user pid dtext DB store = (JsonOk, DB1, store1)"
  shows "\<exists>paper sg. papers DB pid = Some paper
         \<and> papers DB1 pid = Some (paper\<lparr>p_decision := Some
               \<lparr>d_by = s_email user, decisionText = dtext,
                d_hash = sha256 N (ns_from_utf8 N dtext), d_signature = sg, d_ts = now\<rparr>\<rparr>)"
  using post_decision_ok [OF assms] by force

text \<open>
  C9, as the code has it. In the server a later decision supersedes the earlier one: the
  paper's one decision slot is set to a newly built record (signer, text, hash, signature,
  time stamp) whatever it held before, and the fields of a stored record are never edited.
  In decisionController a later decision edits the existing one: when a decision document
  for the paper exists, \<^verbatim>\<open>makeDecision\<close> adds no document; the existing document keeps
  its id and its creation time and has its paper id, outcome, summary, editor, review
  summary, rating, decision time, signature and algorithm fields overwritten by the new
  values. Reading a decision changes no paper and no decision, and neither does the
  refusal of a request that has no session user.
\<close>

theorem later_decision_overwrites:
  "(makeDecision V privateKeyPath t_decided t_signed newId rq paperColl coll
        = (SOk 201 m, paperColl1, coll1)
      \<and> findOne_paperId coll (rq_paperId rq) = Some d0 \<and> distinct (map dd_id coll)
    \<longrightarrow> map dd_id coll1 = map dd_id coll
        \<and> (\<exists>sg. findById coll1 (dd_id d0) = Some
              (d0\<lparr>dd_paperId := rq_paperId rq, dd_decision := rq_decision rq,
                  dd_summary := nv_trim V (rq_summary rq), dd_editorId := rq_userId rq,
                  dd_editorEmail := rq_userEmail rq,
                  dd_reviewsSummary := rq_reviewsSummary rq,
                  dd_averageRating := rq_averageRating rq, dd_decidedAt := t_decided,
                  dd_signature := sg,
                  dd_signatureAlgorithm := ''RSA-PSS with SHA-256''\<rparr>)))
 \<and> (post_decision N now sid user pid dtext DB store = (JsonOk, DB1, store1)
    \<longrightarrow> (\<exists>paper sg. papers DB pid = Some paper
          \<and> papers DB1 pid = Some (paper\<lparr>p_decision := Some
                \<lparr>d_by = s_email user, decisionText = dtext,
                 d_hash = sha256 N (ns_from_utf8 N dtext), d_signature = sg, d_ts = now\<rparr>\<rparr>)))
 \<and> papers (snd (get_decision N' now' user' pid' DB')) = papers DB'
 \<and> (case requireAuth t0 path sess DB0 of
       None \<Rightarrow> True
     | Some (r, DBx) \<Rightarrow> papers DBx = papers DB0)"
proof (intro conjI impI)
  assume a: "makeDecision V privateKeyPath t_decided t_signed newId rq paperColl coll
        = (SOk 201 m, paperColl1, coll1)
      \<and> findOne_paperId coll (rq_paperId rq) = Some d0 \<and> distinct (map dd_id coll)"
  then have r: "map dd_id coll1 = map dd_id coll
        \<and> (\<exists>sg. findById coll1 (dd_id d0) = Some
              (d0\<lparr>dd_paperId := rq_paperId rq, dd_decision := rq_decision rq,
                  dd_summary := nv_trim V (rq_summary rq), dd_editorId := rq_userId rq,
                  dd_editorEmail := rq_userEmail rq,
                  dd_reviewsSummary := rq_reviewsSummary rq,
                  dd_averageRating := rq_averageRating rq, dd_decidedAt := t_decided,
                  dd_signature := sg,
                  dd_signatureAlgorithm := ''RSA-PSS with SHA-256''\<rparr>))"
    by (intro makeDecision_overwrites [where paperColl = paperColl and ?paperColl1.0 = paperColl1
           and m = m and newId = newId and t_signed = t_signed and privPath = privateKeyPath])
       blast+
  from r show "map dd_id coll1 = map dd_id coll" by (rule conjunct1)
  from r show "\<exists>sg. findById coll1 (dd_id d0) = Some
              (d0\<lparr>dd_paperId := rq_paperId rq, dd_decision := rq_decision rq,
                  dd_summary := nv_trim V (rq_summary rq), dd_editorId := rq_userId rq,
                  dd_editorEmail := rq_userEmail rq,
                  dd_reviewsSummary := rq_reviewsSummary rq,
                  dd_averageRating := rq_averageRating rq, dd_decidedAt := t_decided,
                  dd_signature := sg,
                  dd_signatureAlgorithm := ''RSA-PSS with SHA-256''\<rparr>)" by (rule conjunct2)
next
  assume "post_decision N now sid user pid dtext DB store = (JsonOk, DB1, store1)"
  then show "\<exists>paper sg. papers DB pid = Some paper
          \<and> papers DB1 pid = Some (paper\<lparr>p_decision := Some
                \<lparr>d_by = s_email user, decisionText = dtext,
                 d_hash = sha256 N (ns_from_utf8 N dtext), d_signature = sg, d_ts = now\<rparr>\<rparr>)"
    by (rule post_decision_replaces)
next
  show "papers (snd (get_decision N' now' user' pid' DB')) = papers DB'"
    by (rule get_decision_papers)
next
  show "case requireAuth t0 path sess DB0 of
       None \<Rightarrow> True
     | Some (r, DBx) \<Rightarrow> papers DBx = papers DB0"
    by (simp add: requireAuth_def logEvent_def split: option.splits)
qed

lemma demo_coll1_is: "demo_coll1 = [demo_doc1]"
  unfolding demo_coll1_def demo_coll1_eq by simp

lemma demo_coll2_eq:
  "makeDecision demo_service ''private.pem'' 2 2 ''d2'' (demo_rq ''REJECTED'' CHR ''b'')
     [''P'' \<mapsto> demo_paper_doc] [demo_doc1]
   = (SOk 201 ''Decision recorded and digitally signed'',
      [''P'' \<mapsto> demo_paper_doc\<lparr>pd_status := ''REJECTED'', pd_finalDecision := Some ''d1''\<rparr>],
      demo_coll2)"
  by (simp add: demo_coll2_def demo_coll1_is makeDecision_def demo_rq_def signData_def
        findOne_paperId_def findByIdAndUpdate_def demo_doc1_def demo_service_def Let_def)

text \<open>The claim as stated fails: after a second \<^verbatim>\<open>makeDecision\<close> for the same paper the
  document created by the first one, still the only one and under the same id, carries the
  second outcome and summary.\<close>

theorem decision_record_is_overwritten:
  "findById demo_coll1 ''d1'' = Some demo_doc1
   \<and> dd_decision demo_doc1 = ''ACCEPTED''
   \<and> map_option dd_decision (findById demo_coll2 ''d1'') = Some ''REJECTED''
   \<and> map_option dd_summary (findById demo_coll2 ''d1'') = Some (replicate 50 CHR ''b'')
   \<and> length demo_coll2 = 1"
  by (simp add: demo_coll2_def demo_coll1_is makeDecision_def demo_rq_def signData_def
        findOne_paperId_def findByIdAndUpdate_def findById_def demo_doc1_def demo_service_def
        Let_def)


theorem later_decision_overwrites_witness:
  "map dd_id demo_coll2 = [''d1'']
   \<and> map_option dd_decision (findById demo_coll2 ''d1'') = Some ''REJECTED''
   \<and> map_option dd_createdAt (findById demo_coll2 ''d1'') = Some 1
   \<and> map_option p_decision (papers demo_decided ''p1'') = Some (Some demo_decision)"
proof -
  note t = later_decision_overwrites
    [where V = demo_service and privateKeyPath = "''private.pem''" and t_decided = 2
       and t_signed = 2 and newId = "''d2''" and rq = "demo_rq ''REJECTED'' CHR ''b''"
       and paperColl = "[''P'' \<mapsto> demo_paper_doc]" and coll = "[demo_doc1]"
       and m = "''Decision recorded and digitally signed''"
       and ?paperColl1.0 = "[''P'' \<mapsto> demo_paper_doc\<lparr>pd_status := ''REJECTED'',
                                                        pd_finalDecision := Some ''d1''\<rparr>]"
       and ?coll1.0 = demo_coll2 and ?d0.0 = demo_doc1
       and N = demo_node and now = 10 and sid = "''sb''"
       and user = "demo_session ''bob'' ''Collaborator''" and pid = "''p1''"
       and dtext = "''accept''" and DB = demo_sealed and store = demo_store
       and ?DB1.0 = demo_decided and ?store1.0 = demo_store]
  have h1: "makeDecision demo_service ''private.pem'' 2 2 ''d2'' (demo_rq ''REJECTED'' CHR ''b'')
              [''P'' \<mapsto> demo_paper_doc] [demo_doc1]
            = (SOk 201 ''Decision recorded and digitally signed'',
               [''P'' \<mapsto> demo_paper_doc\<lparr>pd_status := ''REJECTED'', pd_finalDecision := Some ''d1''\<rparr>],
               demo_coll2)
      \<and> findOne_paperId [demo_doc1] (rq_paperId (demo_rq ''REJECTED'' CHR ''b'')) = Some demo_doc1
      \<and> distinct (map dd_id [demo_doc1])"
    using demo_coll2_eq by (simp add: findOne_paperId_def demo_doc1_def demo_rq_def)
  from t h1 have ids: "map dd_id demo_coll2 = map dd_id [demo_doc1]" by blast
  from t h1 obtain sg where
    f: "findById demo_coll2 (dd_id demo_doc1) = Some
              (demo_doc1\<lparr>dd_paperId := rq_paperId (demo_rq ''REJECTED'' CHR ''b''),
                  dd_decision := rq_decision (demo_rq ''REJECTED'' CHR ''b''),
                  dd_summary := nv_trim demo_service (rq_summary (demo_rq ''REJECTED'' CHR ''b'')),
                  dd_editorId := rq_userId (demo_rq ''REJECTED'' CHR ''b''),
                  dd_editorEmail := rq_userEmail (demo_rq ''REJECTED'' CHR ''b''),
                  dd_reviewsSummary := rq_reviewsSummary (demo_rq ''REJECTED'' CHR ''b''),
                  dd_averageRating := rq_averageRating (demo_rq ''REJECTED'' CHR ''b''),
                  dd_decidedAt := 2, dd_signature := sg,
                  dd_signatureAlgorithm := ''RSA-PSS with SHA-256''\<rparr>)"
    by blast
  have i1: "dd_id demo_doc1 = ''d1''" by (simp add: demo_doc1_def)
  from t demo_decided_eq obtain paper sg' where
    p: "papers demo_decided ''p1'' = Some (paper\<lparr>p_decision := Some
                \<lparr>d_by = s_email (demo_session ''bob'' ''Collaborator''), decisionText = ''accept'',
                 d_hash = sha256 demo_node (ns_from_utf8 demo_node ''accept''),
                 d_signature = sg', d_ts = 10\<rparr>\<rparr>)"
    by blast
  have d: "map_option p_decision (papers demo_decided ''p1'') = Some (Some demo_decision)"
    by (simp add: demo_decided_paper)
  from ids f [unfolded i1] d show ?thesis
    by (simp add: demo_doc1_def demo_rq_def)
qed

end
